theory Spec2Isabelle
  imports Main "HOL-Library.AList"
begin

section \<open>JavaScript values used by the request handlers\<close>

text \<open>
  A JavaScript string is kept as the bytes of its UTF-8 encoding, so equality and
  concatenation are those of the string, a character up to U+007F is one byte, one up to
  U+00FF is two bytes with lead byte C2 or C3, and every character beyond U+00FF has a
  lead byte from C4 on. Strings with an unpaired surrogate, which have no UTF-8 encoding,
  are left out. The bytes of a file are kept as a string as well.

  A number is kept as the text JavaScript prints for it (\<open>Number::toString\<close>): the
  code modelled prints numbers and never calculates with them.

  A parsed JSON document is a tree. An object is its list of own properties (keys
  distinct, as \<open>JSON.parse\<close> leaves them).
\<close>

type_synonym bytes = string

type_synonym js_number = string

datatype json =
    JNull
  | JBool bool
  | JNumber js_number
  | JString string
  | JArray "json list"
  | JObject "(string \<times> json) list"

text \<open>
  A thrown value: an \<open>Error\<close> instance with its name, message and optional \<open>code\<close>
  property, or any other value, kept as the text \<open>String(v)\<close> gives and the \<open>code\<close>
  property it has when it is an object with one.
\<close>

datatype thrown =
    JsError string string "string option"
  | JsOther string "string option"

fun thrown_code :: "thrown \<Rightarrow> string option" where
  "thrown_code (JsError n m c) = c"
| "thrown_code (JsOther t c) = c"

text \<open>\<open>String(error)\<close>: for an Error instance, \<open>Error.prototype.toString\<close>.\<close>

fun String_of :: "thrown \<Rightarrow> string" where
  "String_of (JsError n m c) =
     (if n = [] then m else if m = [] then n else n @ '': '' @ m)"
| "String_of (JsOther t c) = t"

text \<open>\<open>error instanceof Error ? error.message : String(error)\<close>\<close>

fun error_details :: "thrown \<Rightarrow> string" where
  "error_details (JsError n m c) = m"
| "error_details (JsOther t c) = t"

text \<open>
  Property access \<open>v.k\<close> on a parsed JSON value, for a key that is no built-in property
  of strings, numbers, booleans or arrays (the handlers read \<open>status\<close>, \<open>report\<close> and
  \<open>reportMonth\<close> only). On \<open>null\<close> it throws a TypeError; a missing property is
  \<open>undefined\<close>, written \<open>None\<close>.
\<close>

fun get_prop :: "json \<Rightarrow> string \<Rightarrow> thrown + json option" where
  "get_prop JNull k =
     Inl (JsError ''TypeError''
            (''Cannot read properties of null (reading '' @ [CHR 0x27] @ k @ [CHR 0x27] @ '')'')
            None)"
| "get_prop (JObject kvs) k = Inr (map_of kvs k)"
| "get_prop v k = Inr None"

text \<open>Optional chaining \<open>v?.k\<close> on a value that may be \<open>undefined\<close> or \<open>null\<close>.\<close>

fun opt_chain :: "json option \<Rightarrow> string \<Rightarrow> json option" where
  "opt_chain None k = None"
| "opt_chain (Some JNull) k = None"
| "opt_chain (Some (JObject kvs)) k = map_of kvs k"
| "opt_chain (Some v) k = None"

text \<open>Nullish coalescing \<open>v ?? d\<close>.\<close>

fun nullish :: "json option \<Rightarrow> json \<Rightarrow> json" where
  "nullish None d = d"
| "nullish (Some JNull) d = d"
| "nullish (Some v) d = v"

fun join_with :: "string \<Rightarrow> string list \<Rightarrow> string" where
  "join_with sep [] = []"
| "join_with sep [x] = x"
| "join_with sep (x # y # ys) = x @ sep @ join_with sep (y # ys)"

text \<open>
  The first error of a list of results, in order, or all the values.
\<close>

fun all_or_first_error :: "(thrown + 'a) list \<Rightarrow> thrown + 'a list" where
  "all_or_first_error [] = Inr []"
| "all_or_first_error (Inl e # rs) = Inl e"
| "all_or_first_error (Inr v # rs) =
     (case all_or_first_error rs of Inl e \<Rightarrow> Inl e | Inr vs \<Rightarrow> Inr (v # vs))"

text \<open>
  The text a template literal gives for a parsed JSON value (\<open>ToString\<close>). A string is
  taken as it is and a number as it prints. An array prints as
  \<open>Array.prototype.join\<close> does: its elements in order, \<open>null\<close> as the empty string,
  separated by commas. An object is converted by \<open>toString\<close>, then \<open>valueOf\<close>: with
  no own property \<open>toString\<close> it inherits the one that gives \<open>[object Object]\<close>; with
  an own property \<open>toString\<close> (a JSON value, so not callable) neither method yields a
  primitive value and a TypeError is thrown.
\<close>

fun js_to_string :: "json \<Rightarrow> thrown + string" where
  "js_to_string JNull = Inr ''null''"
| "js_to_string (JBool b) = Inr (if b then ''true'' else ''false'')"
| "js_to_string (JNumber n) = Inr n"
| "js_to_string (JString s) = Inr s"
| "js_to_string (JArray xs) =
     (case all_or_first_error (map (\<lambda>x. if x = JNull then Inr [] else js_to_string x) xs) of
        Inl e \<Rightarrow> Inl e
      | Inr texts \<Rightarrow> Inr (join_with '','' texts))"
| "js_to_string (JObject kvs) =
     (if map_of kvs ''toString'' = None then Inr ''[object Object]''
      else Inl (JsError ''TypeError'' ''Cannot convert object to primitive value'' None))"

text \<open>
  \<open>String.prototype.trim\<close> removes white space and line terminators from both ends.
  These are the characters U+0009 to U+000D, U+0020, U+00A0, U+1680, U+2000 to U+200A,
  U+2028, U+2029, U+202F, U+205F, U+3000 and U+FEFF, here as their UTF-8 bytes.
\<close>

definition js_spaces :: "string list" where
  "js_spaces =
     [[CHR 0x09], [CHR 0x0A], [CHR 0x0B], [CHR 0x0C], [CHR 0x0D], [CHR 0x20],
      [CHR 0xC2, CHR 0xA0],
      [CHR 0xE1, CHR 0x9A, CHR 0x80],
      [CHR 0xE2, CHR 0x80, CHR 0x80], [CHR 0xE2, CHR 0x80, CHR 0x81],
      [CHR 0xE2, CHR 0x80, CHR 0x82], [CHR 0xE2, CHR 0x80, CHR 0x83],
      [CHR 0xE2, CHR 0x80, CHR 0x84], [CHR 0xE2, CHR 0x80, CHR 0x85],
      [CHR 0xE2, CHR 0x80, CHR 0x86], [CHR 0xE2, CHR 0x80, CHR 0x87],
      [CHR 0xE2, CHR 0x80, CHR 0x88], [CHR 0xE2, CHR 0x80, CHR 0x89],
      [CHR 0xE2, CHR 0x80, CHR 0x8A],
      [CHR 0xE2, CHR 0x80, CHR 0xA8], [CHR 0xE2, CHR 0x80, CHR 0xA9],
      [CHR 0xE2, CHR 0x80, CHR 0xAF],
      [CHR 0xE2, CHR 0x81, CHR 0x9F],
      [CHR 0xE3, CHR 0x80, CHR 0x80],
      [CHR 0xEF, CHR 0xBB, CHR 0xBF]]"

text \<open>The rest of a string after one of the given sequences at its start, if it has one.\<close>

definition strip_space :: "string list \<Rightarrow> string \<Rightarrow> string option" where
  "strip_space seqs s =
     map_option (\<lambda>p. drop (length p) s)
       (find (\<lambda>p. p \<noteq> [] \<and> take (length p) s = p) seqs)"

function trim_start :: "string list \<Rightarrow> string \<Rightarrow> string" where
  "trim_start seqs s =
     (case strip_space seqs s of None \<Rightarrow> s | Some rest \<Rightarrow> trim_start seqs rest)"
  by pat_completeness auto
termination
proof (relation "measure (\<lambda>(seqs, s). length s)")
  show "wf (measure (\<lambda>(seqs, s). length s))" by simp
next
  fix seqs :: "string list" and s rest :: string
  assume "strip_space seqs s = Some rest"
  then obtain p where p: "p \<noteq> []" "take (length p) s = p" "rest = drop (length p) s"
    by (auto simp: strip_space_def find_Some_iff)
  from p(2) have "length (take (length p) s) = length p" by simp
  then have "length p \<le> length s" by simp
  with p(1,3) have "length rest < length s" by (cases p) auto
  then show "((seqs, rest), (seqs, s)) \<in> measure (\<lambda>(seqs, s). length s)" by simp
qed

declare trim_start.simps [simp del]

definition js_trim :: "string \<Rightarrow> string" where
  "js_trim s = rev (trim_start (map rev js_spaces) (rev (trim_start js_spaces s)))"

text \<open>The \<open>||\<close> chain over environment variables: the first value that is set and not empty.\<close>

fun first_truthy :: "string option list \<Rightarrow> string \<Rightarrow> string" where
  "first_truthy [] d = d"
| "first_truthy (None # vs) d = first_truthy vs d"
| "first_truthy (Some s # vs) d = (if s = [] then first_truthy vs d else s)"

section \<open>The host: file system, temporary files, subprocesses\<close>

text \<open>
  The handlers run against a file store and a log of the operations they perform.
  What the host decides (names of temporary files, failures of file operations, what a
  spawned process does, what \<open>JSON.parse\<close> returns, how the runtime words the error for
  an invalid header value) is a parameter of the model.
\<close>

type_synonym file_store = "(string \<times> bytes) list"

datatype event =
    Created string
  | Wrote string
  | Spawned string "string list"
  | ReadFile string
  | Removed string

record world =
  files :: file_store
  tmp_calls :: nat
  trace :: "event list"

record python_result =
  stdout :: string
  stderr :: string
  exitCode :: "int option"

record host =
  process_env :: "string \<Rightarrow> string option"
  process_cwd :: string
  tmp_name :: "nat \<Rightarrow> thrown + string"
  writeFile_fault :: "string \<Rightarrow> thrown option"
  child_spawn :: "string \<Rightarrow> string list \<Rightarrow> string option \<Rightarrow> file_store
                    \<Rightarrow> thrown + python_result \<times> file_store"
  JSON_parse :: "string \<Rightarrow> thrown + json"
  header_error :: "string \<Rightarrow> string"

text \<open>
  \<open>fileSync({ postfix, discardDescriptor: true })\<close> of the tmp package: the host picks the
  name (or fails), the postfix is appended, and the file is created empty and exclusively,
  so an existing name is an EEXIST error. The returned object is kept as its \<open>name\<close>.
\<close>

definition fileSync :: "host \<Rightarrow> string \<Rightarrow> world \<Rightarrow> (thrown + string) \<times> world" where
  "fileSync H postfix w =
     (let w' = w\<lparr>tmp_calls := Suc (tmp_calls w)\<rparr> in
      case tmp_name H (tmp_calls w) of
        Inl e \<Rightarrow> (Inl e, w')
      | Inr stem \<Rightarrow>
          (let name = stem @ postfix in
           if name \<in> fst ` set (files w)
           then (Inl (JsError ''Error'' (''EEXIST: file already exists, open '' @ name) (Some ''EEXIST'')), w')
           else (Inr name, w'\<lparr>files := AList.update name [] (files w),
                               trace := trace w @ [Created name]\<rparr>)))"

text \<open>\<open>tmpFile.removeCallback()\<close>: unlinks the file; a file already gone is not an error.\<close>

definition removeCallback :: "string \<Rightarrow> world \<Rightarrow> world" where
  "removeCallback name w =
     w\<lparr>files := AList.delete name (files w), trace := trace w @ [Removed name]\<rparr>"

definition fs_writeFile :: "host \<Rightarrow> string \<Rightarrow> bytes \<Rightarrow> world \<Rightarrow> (thrown + unit) \<times> world" where
  "fs_writeFile H path content w =
     (case writeFile_fault H path of
        Some e \<Rightarrow> (Inl e, w)
      | None \<Rightarrow> (Inr (), w\<lparr>files := AList.update path content (files w),
                            trace := trace w @ [Wrote path]\<rparr>))"

definition fs_readFile :: "string \<Rightarrow> world \<Rightarrow> (thrown + bytes) \<times> world" where
  "fs_readFile path w =
     (let w' = w\<lparr>trace := trace w @ [ReadFile path]\<rparr> in
      case map_of (files w) path of
        None \<Rightarrow> (Inl (JsError ''Error'' (''ENOENT: no such file or directory, open '' @ path)
                        (Some ''ENOENT'')), w')
      | Some b \<Rightarrow> (Inr b, w'))"

section \<open>lib/server/python: runPython\<close>

definition isEnoent :: "thrown \<Rightarrow> bool" where
  "isEnoent error = (thrown_code error = Some ''ENOENT'')"

text \<open>
  \<open>spawnPython\<close>: the promise rejects on the child's \<open>error\<close> event and resolves on
  \<open>close\<close> with the collected output and the exit code. The run may change the files.
\<close>

definition spawnPython ::
  "host \<Rightarrow> string \<Rightarrow> string list \<Rightarrow> string option \<Rightarrow> world \<Rightarrow> (thrown + python_result) \<times> world" where
  "spawnPython H command args cwd w =
     (let w' = w\<lparr>trace := trace w @ [Spawned command args]\<rparr> in
      case child_spawn H command args cwd (files w) of
        Inl e \<Rightarrow> (Inl e, w')
      | Inr (res, fs') \<Rightarrow> (Inr res, w'\<lparr>files := fs'\<rparr>))"

definition configured_python :: "host \<Rightarrow> string" where
  "configured_python H =
     first_truthy [process_env H ''PYTHON_EXECUTABLE'', process_env H ''PYTHON'',
                   process_env H ''PYTHON_BIN''] ''python''"

definition runPython ::
  "host \<Rightarrow> string list \<Rightarrow> string option \<Rightarrow> world \<Rightarrow> (thrown + python_result) \<times> world" where
  "runPython H args cwd w =
     (let configured = configured_python H in
      case spawnPython H configured args cwd w of
        (Inr res, w1) \<Rightarrow> (Inr res, w1)
      | (Inl error, w1) \<Rightarrow>
          if isEnoent error \<and> configured \<noteq> ''py''
          then spawnPython H ''py'' args cwd w1
          else (Inl (JsError ''Error'' (''Failed to start Python: '' @ error_details error) None), w1))"

section \<open>Requests and responses\<close>

text \<open>
  A form field is a file or a string; \<open>formData.get(name)\<close> is the first entry of that
  name, or \<open>null\<close>. Reading the form data of a request can itself fail.
\<close>

record upload =
  file_name :: string
  file_bytes :: bytes

datatype form_value = FormFile upload | FormString string

type_synonym form_data = "(string \<times> form_value) list"

record request =
  formData :: "thrown + form_data"

datatype body = JsonBody json | BinaryBody bytes

record response =
  resp_status :: nat
  resp_headers :: "(string \<times> string) list"
  resp_body :: body

datatype outcome = Returned response | Threw thrown

text \<open>
  \<open>NextResponse.json(value, { status })\<close>. The body is kept as the value handed
  over; what is sent is its \<open>JSON.stringify\<close> text.
\<close>

definition NextResponse_json :: "json \<Rightarrow> nat \<Rightarrow> response" where
  "NextResponse_json v st =
     \<lparr>resp_status = st, resp_headers = [(''content-type'', ''application/json'')],
      resp_body = JsonBody v\<rparr>"

text \<open>\<open>path.join\<close>, on paths that need no normalisation.\<close>

definition path_join :: "string list \<Rightarrow> string" where
  "path_join parts = join_with ''/'' parts"

definition writeTempFile :: "host \<Rightarrow> upload \<Rightarrow> string \<Rightarrow> world \<Rightarrow> (thrown + string) \<times> world" where
  "writeTempFile H file postfix w =
     (case fileSync H postfix w of
        (Inl e, w1) \<Rightarrow> (Inl e, w1)
      | (Inr tmpFile, w1) \<Rightarrow>
          (case fs_writeFile H tmpFile (file_bytes file) w1 of
             (Inl e, w2) \<Rightarrow> (Inl e, w2)
           | (Inr u, w2) \<Rightarrow> (Inr tmpFile, w2)))"

definition skip_flag :: "bool \<Rightarrow> string list" where
  "skip_flag skipValidation = (if skipValidation then [''--skip-validation''] else [])"

section \<open>app/api/analyze/route.ts\<close>

definition analyze_args :: "host \<Rightarrow> bool \<Rightarrow> string \<Rightarrow> string \<Rightarrow> string list" where
  "analyze_args H skipValidation wordTmp excelTmp =
     [path_join [process_cwd H, ''processor'', ''main.py''], ''analyze'',
      ''--word'', wordTmp, ''--excel'', excelTmp] @ skip_flag skipValidation"

text \<open>The body of the \<open>try\<close> block: a response, or the value thrown inside it.\<close>

definition analyze_try ::
  "host \<Rightarrow> bool \<Rightarrow> string \<Rightarrow> string \<Rightarrow> world \<Rightarrow> (thrown + response) \<times> world" where
  "analyze_try H skipValidation wordTmp excelTmp w =
     (case runPython H (analyze_args H skipValidation wordTmp excelTmp) (Some (process_cwd H)) w of
        (Inl e, w1) \<Rightarrow> (Inl e, w1)
      | (Inr result, w1) \<Rightarrow>
          if js_trim (stdout result) = []
          then (Inr (NextResponse_json
                  (JObject [(''error'', JString ''Python worker did not return output.''),
                            (''details'', JString (stderr result))]) 500), w1)
          else
            (case JSON_parse H (stdout result) of
               Inl e \<Rightarrow> (Inl e, w1)
             | Inr payload \<Rightarrow>
                 (case get_prop payload ''status'' of
                    Inl e \<Rightarrow> (Inl e, w1)
                  | Inr st \<Rightarrow>
                      if st \<noteq> Some (JString ''ok'')
                      then (Inr (NextResponse_json payload 422), w1)
                      else (Inr (NextResponse_json payload 200), w1))))"

text \<open>The \<open>catch\<close> block.\<close>

definition analyze_catch :: "thrown + response \<Rightarrow> response" where
  "analyze_catch r =
     (case r of
        Inl error \<Rightarrow>
          NextResponse_json
            (JObject [(''error'', JString ''Failed to analyze report.''),
                      (''details'', JString (String_of error))]) 500
      | Inr resp \<Rightarrow> resp)"

definition missing_files_response :: response where
  "missing_files_response =
     NextResponse_json (JObject [(''error'', JString ''Both word and excel files are required.'')]) 400"

definition POST_analyze :: "host \<Rightarrow> request \<Rightarrow> world \<Rightarrow> outcome \<times> world" where
  "POST_analyze H req w =
     (case formData req of
        Inl e \<Rightarrow> (Threw e, w)
      | Inr fd \<Rightarrow>
          (let skipValidation = (map_of fd ''skipValidation'' = Some (FormString ''true'')) in
           case (map_of fd ''word'', map_of fd ''excel'') of
             (Some (FormFile word), Some (FormFile excel)) \<Rightarrow>
               (case writeTempFile H word ''.docx'' w of
                  (Inl e, w1) \<Rightarrow> (Threw e, w1)
                | (Inr wordTmp, w1) \<Rightarrow>
                    (case writeTempFile H excel ''.xlsx'' w1 of
                       (Inl e, w2) \<Rightarrow> (Threw e, w2)
                     | (Inr excelTmp, w2) \<Rightarrow>
                         (case analyze_try H skipValidation wordTmp excelTmp w2 of
                            (r, w3) \<Rightarrow>
                              (Returned (analyze_catch r),
                               removeCallback excelTmp (removeCallback wordTmp w3)))))
           | _ \<Rightarrow> (Returned missing_files_response, w)))"

section \<open>app/api/generate/route.ts\<close>

definition generate_args :: "host \<Rightarrow> bool \<Rightarrow> string \<Rightarrow> string \<Rightarrow> string \<Rightarrow> string list" where
  "generate_args H skipValidation wordTmp excelTmp outTmp =
     [path_join [process_cwd H, ''processor'', ''main.py''], ''generate'',
      ''--word'', wordTmp, ''--excel'', excelTmp, ''--out'', outTmp] @ skip_flag skipValidation"

definition xlsx_type :: string where
  "xlsx_type = ''application/vnd.openxmlformats-officedocument.spreadsheetml.sheet''"

text \<open>
  \<open>payload.report?.reportMonth ?? "report"\<close>, printed into the template literal
  \<open>`report_updated_${reportMonth}.xlsx`\<close>.
\<close>

definition download_filename :: "json \<Rightarrow> thrown + string" where
  "download_filename payload =
     (case get_prop payload ''report'' of
        Inl e \<Rightarrow> Inl e
      | Inr report \<Rightarrow>
          (case js_to_string (nullish (opt_chain report ''reportMonth'') (JString ''report'')) of
             Inl e \<Rightarrow> Inl e
           | Inr reportMonth \<Rightarrow> Inr (''report_updated_'' @ reportMonth @ ''.xlsx'')))"

text \<open>
  The header values of a response are checked when it is constructed. A value must
  convert to a byte string, so it has no character beyond U+00FF (in UTF-8: no byte from
  C4 on). Leading and trailing HTTP white space (tab, line feed, carriage return, space)
  is then removed, and what remains must contain no NUL, line feed or carriage return.
  Otherwise the constructor throws a TypeError, whose message is worded by the runtime
  (\<open>header_error\<close> of the host, from the offending value). The header names used are
  valid.
\<close>

definition http_space :: "char \<Rightarrow> bool" where
  "http_space c = (of_char c \<in> {9, 10, 13, 32 :: nat})"

definition header_normalize :: "string \<Rightarrow> string" where
  "header_normalize v = rev (dropWhile http_space (rev (dropWhile http_space v)))"

definition byte_string_char :: "char \<Rightarrow> bool" where
  "byte_string_char c = ((of_char c :: nat) < 0xC4)"

definition header_value_char :: "char \<Rightarrow> bool" where
  "header_value_char c = (of_char c \<notin> {0, 10, 13 :: nat})"

definition header_value_ok :: "string \<Rightarrow> bool" where
  "header_value_ok v =
     (list_all byte_string_char v \<and> list_all header_value_char (header_normalize v))"

text \<open>\<open>new NextResponse(body, { status, headers })\<close>\<close>

definition NextResponse_new ::
  "host \<Rightarrow> bytes \<Rightarrow> nat \<Rightarrow> (string \<times> string) list \<Rightarrow> thrown + response" where
  "NextResponse_new H content st headers =
     (case find (\<lambda>h. \<not> header_value_ok (snd h)) headers of
        None \<Rightarrow>
          Inr \<lparr>resp_status = st,
               resp_headers = map (\<lambda>h. (fst h, header_normalize (snd h))) headers,
               resp_body = BinaryBody content\<rparr>
      | Some h \<Rightarrow> Inl (JsError ''TypeError'' (header_error H (snd h)) None))"

definition download_response :: "host \<Rightarrow> bytes \<Rightarrow> string \<Rightarrow> thrown + response" where
  "download_response H fileBuffer filename =
     NextResponse_new H fileBuffer 200
       [(''Content-Type'', xlsx_type),
        (''Content-Disposition'', ''attachment; filename=\"'' @ filename @ ''\"'')]"

definition generate_try ::
  "host \<Rightarrow> bool \<Rightarrow> string \<Rightarrow> string \<Rightarrow> string \<Rightarrow> world \<Rightarrow> (thrown + response) \<times> world" where
  "generate_try H skipValidation wordTmp excelTmp outTmp w =
     (case runPython H (generate_args H skipValidation wordTmp excelTmp outTmp)
             (Some (process_cwd H)) w of
        (Inl e, w1) \<Rightarrow> (Inl e, w1)
      | (Inr result, w1) \<Rightarrow>
          if js_trim (stdout result) = []
          then (Inr (NextResponse_json
                  (JObject [(''error'', JString ''Python worker did not return output.''),
                            (''details'', JString (stderr result))]) 500), w1)
          else
            (case JSON_parse H (stdout result) of
               Inl e \<Rightarrow> (Inl e, w1)
             | Inr payload \<Rightarrow>
                 (case get_prop payload ''status'' of
                    Inl e \<Rightarrow> (Inl e, w1)
                  | Inr st \<Rightarrow>
                      if st \<noteq> Some (JString ''ok'')
                      then (Inr (NextResponse_json payload 422), w1)
                      else
                        (case fs_readFile outTmp w1 of
                           (Inl e, w2) \<Rightarrow> (Inl e, w2)
                         | (Inr fileBuffer, w2) \<Rightarrow>
                             (case download_filename payload of
                                Inl e \<Rightarrow> (Inl e, w2)
                              | Inr filename \<Rightarrow>
                                  (download_response H fileBuffer filename, w2))))))"

definition generate_catch :: "thrown + response \<Rightarrow> response" where
  "generate_catch r =
     (case r of
        Inl error \<Rightarrow>
          NextResponse_json
            (JObject [(''error'', JString ''Failed to generate report.''),
                      (''details'', JString (String_of error))]) 500
      | Inr resp \<Rightarrow> resp)"

definition POST_generate :: "host \<Rightarrow> request \<Rightarrow> world \<Rightarrow> outcome \<times> world" where
  "POST_generate H req w =
     (case formData req of
        Inl e \<Rightarrow> (Threw e, w)
      | Inr fd \<Rightarrow>
          (let skipValidation = (map_of fd ''skipValidation'' = Some (FormString ''true'')) in
           case (map_of fd ''word'', map_of fd ''excel'') of
             (Some (FormFile word), Some (FormFile excel)) \<Rightarrow>
               (case writeTempFile H word ''.docx'' w of
                  (Inl e, w1) \<Rightarrow> (Threw e, w1)
                | (Inr wordTmp, w1) \<Rightarrow>
                    (case writeTempFile H excel ''.xlsx'' w1 of
                       (Inl e, w2) \<Rightarrow> (Threw e, w2)
                     | (Inr excelTmp, w2) \<Rightarrow>
                         (case fileSync H ''.xlsx'' w2 of
                            (Inl e, w3) \<Rightarrow> (Threw e, w3)
                          | (Inr outTmp, w3) \<Rightarrow>
                              (case generate_try H skipValidation wordTmp excelTmp outTmp w3 of
                                 (r, w4) \<Rightarrow>
                                   (Returned (generate_catch r),
                                    removeCallback outTmp
                                      (removeCallback excelTmp (removeCallback wordTmp w4)))))))
           | _ \<Rightarrow> (Returned missing_files_response, w)))"

section \<open>app/page.tsx: the report types and the Generate button\<close>

datatype issue_type = Error_issue | Warning_issue

record issue =
  issue_kind :: issue_type
  message :: string
  source :: "string option"
  suggestedFix :: "string option"

record metric_row =
  metric_key :: string
  metric_number :: js_number
  sourceSnippet :: string
  sourcePointer :: "string option"

record article_row =
  article :: string
  women_u18 :: js_number
  women_ge18 :: js_number
  women_total :: js_number
  stopped :: js_number
  new :: js_number
  total_cases :: js_number

record cross_check =
  check_key :: string
  formula :: string
  expected :: js_number
  actual :: js_number
  pass :: bool

datatype cell_value = CellText string | CellNumber js_number | CellNull

record update_preview =
  sheet :: string
  cell :: string
  rowLabel :: string
  oldValue :: cell_value
  newValue :: cell_value
  kind :: string

record analysis_report =
  reportMonth :: string
  extractedMetrics :: "metric_row list"
  articleBreakdown :: "article_row list"
  crossChecks :: "cross_check list"
  errors :: "issue list"
  warnings :: "issue list"
  updatePreview :: "update_preview list"
  validationSkipped :: "bool option"

datatype response_status = Ok_status | Validation_error

record analysis_response =
  status :: response_status
  report :: analysis_report

datatype ui_status = Idle | Analyzing | Generating

record ui_state =
  wordFile :: "upload option"
  excelFile :: "upload option"
  analysis :: "analysis_report option"
  ui_status :: ui_status
  apiError :: "string option"
  skipValidation :: bool




section \<open>The pipeline's gate\<close>











section \<open>Notions used to state the properties\<close>

text \<open>The operations a handler run appended to the log.\<close>

definition events_since :: "world \<Rightarrow> world \<Rightarrow> event list" where
  "events_since w w' = drop (length (trace w)) (trace w')"

text \<open>\<open>v instanceof File\<close> for a form entry.\<close>

fun is_File :: "form_value option \<Rightarrow> bool" where
  "is_File (Some (FormFile f)) = True"
| "is_File v = False"


text \<open>
  A text every character of which may stand inside a header value: no character beyond
  U+00FF, no NUL, no line feed, no carriage return.
\<close>

definition header_text_ok :: "string \<Rightarrow> bool" where
  "header_text_ok s = (list_all byte_string_char s \<and> list_all header_value_char s)"

definition starts_with :: "string \<Rightarrow> string \<Rightarrow> bool" where
  "starts_with p s = (take (length p) s = p)"

text \<open>An environment variable that is unset or set to the empty string.\<close>

definition unset_or_empty :: "string option \<Rightarrow> bool" where
  "unset_or_empty v = (v = None \<or> v = Some [])"

section \<open>Example hosts and requests\<close>

definition empty_world :: world where
  "empty_world = \<lparr>files = [], tmp_calls = 0, trace = []\<rparr>"

text \<open>A host with no interpreter installed: every spawn fails with ENOENT.\<close>

definition base_host :: host where
  "base_host =
     \<lparr>process_env = (\<lambda>v. None),
      process_cwd = ''/app'',
      tmp_name = (\<lambda>n. Inr (''/tmp/tmp-'' @ replicate (Suc n) CHR ''a'')),
      writeFile_fault = (\<lambda>p. None),
      child_spawn = (\<lambda>c a d fs.
        Inl (JsError ''Error'' (''spawn '' @ c @ '' ENOENT'') (Some ''ENOENT''))),
      JSON_parse = (\<lambda>s. Inl (JsError ''SyntaxError'' ''Unexpected end of JSON input'' None)),
      header_error = (\<lambda>v. ''Invalid header value'')\<rparr>"

text \<open>A host whose interpreter cannot be executed: every spawn fails with EACCES.\<close>

definition eacces_host :: host where
  "eacces_host =
     base_host\<lparr>child_spawn := (\<lambda>c a d fs.
        Inl (JsError ''Error'' (''spawn '' @ c @ '' EACCES'') (Some ''EACCES'')))\<rparr>"

definition ok_payload :: json where
  "ok_payload =
     JObject [(''status'', JString ''ok''),
              (''report'', JObject [(''reportMonth'', JString ''2024-01'')])]"

definition blocked_payload :: json where
  "blocked_payload =
     JObject [(''status'', JString ''validation_error''),
              (''report'', JObject [(''reportMonth'', JString ''2024-01'')])]"

definition bare_payload :: json where
  "bare_payload = JObject [(''status'', JString ''ok'')]"

text \<open>
  Payloads with status ok whose report month cannot go into the download's header: one
  with a line feed in it, one in Cyrillic letters (the UTF-8 bytes of four letters beyond
  U+00FF), and one that is an object with an own property \<open>toString\<close>.
\<close>

definition linefeed_payload :: json where
  "linefeed_payload =
     JObject [(''status'', JString ''ok''),
              (''report'', JObject [(''reportMonth'', JString (''June'' @ [CHR 0x0A] @ ''2024''))])]"

definition cyrillic_payload :: json where
  "cyrillic_payload =
     JObject [(''status'', JString ''ok''),
              (''report'',
               JObject [(''reportMonth'',
                         JString [CHR 0xD0, CHR 0x98, CHR 0xD1, CHR 0x8E,
                                  CHR 0xD0, CHR 0xBD, CHR 0xD1, CHR 0x8C])])]"

definition object_month_payload :: json where
  "object_month_payload =
     JObject [(''status'', JString ''ok''),
              (''report'',
               JObject [(''reportMonth'', JObject [(''toString'', JNumber ''1'')])])]"

definition example_parse :: "string \<Rightarrow> thrown + json" where
  "example_parse s =
     (if s = ''OK'' then Inr ok_payload
      else if s = ''BLOCKED'' then Inr blocked_payload
      else if s = ''BARE'' then Inr bare_payload
      else if s = ''null'' then Inr JNull
      else if s = ''LINEFEED'' then Inr linefeed_payload
      else if s = ''CYRILLIC'' then Inr cyrillic_payload
      else if s = ''OBJECT'' then Inr object_month_payload
      else Inl (JsError ''SyntaxError'' ''Unexpected token in JSON'' None))"

text \<open>
  A host whose interpreter is found under the name given by PYTHON. The worker prints
  \<open>out\<close> and \<open>err\<close>, exits with \<open>code\<close> and, when \<open>art\<close> is given, writes it to the
  path that follows \<open>--out\<close>. The parser knows the outputs \<open>OK\<close>, \<open>BLOCKED\<close>,
  \<open>BARE\<close>, \<open>null\<close>, \<open>LINEFEED\<close>, \<open>CYRILLIC\<close> and \<open>OBJECT\<close>, which stand for
  the JSON texts of the payloads above.
\<close>

definition worker_host :: "string \<Rightarrow> string \<Rightarrow> int option \<Rightarrow> bytes option \<Rightarrow> host" where
  "worker_host out err code art =
     base_host\<lparr>
       process_env := (\<lambda>v. if v = ''PYTHON'' then Some ''python3'' else None),
       child_spawn := (\<lambda>c a d fs.
         if c = ''python3''
         then Inr (\<lparr>stdout = out, stderr = err, exitCode = code\<rparr>,
                   (case art of
                      None \<Rightarrow> fs
                    | Some b \<Rightarrow> if 7 < length a then AList.update (a ! 7) b fs else fs))
         else Inl (JsError ''Error'' (''spawn '' @ c @ '' ENOENT'') (Some ''ENOENT''))),
       JSON_parse := example_parse\<rparr>"

definition example_form :: "string \<Rightarrow> form_data" where
  "example_form skip =
     [(''word'', FormFile \<lparr>file_name = ''june.docx'', file_bytes = ''DOCX''\<rparr>),
      (''excel'', FormFile \<lparr>file_name = ''may.xlsx'', file_bytes = ''XLSX''\<rparr>),
      (''skipValidation'', FormString skip)]"

definition example_request :: "string \<Rightarrow> request" where
  "example_request skip = \<lparr>formData = Inr (example_form skip)\<rparr>"

text \<open>
  The host of \<open>worker_host\<close> with a full disk: writing the second staged file fails.
\<close>

definition disk_full_host :: host where
  "disk_full_host =
     (worker_host ''OK'' [] (Some 0) None)\<lparr>writeFile_fault := (\<lambda>p.
        if p = ''/tmp/tmp-aa.xlsx''
        then Some (JsError ''Error'' ''ENOSPC: no space left on device, write'' (Some ''ENOSPC''))
        else None)\<rparr>"

text \<open>
  What a handler can see of a finished worker run: its standard output, and its standard
  error only when the output is blank. The exit code is no part of it.
\<close>

definition seen_of :: "python_result \<Rightarrow> string \<times> string option" where
  "seen_of r = (stdout r, if js_trim (stdout r) = [] then Some (stderr r) else None)"

text \<open>
  What a handler can see of the outcome of a spawn: the error when it fails; otherwise
  the visible part of the result and the files the run leaves.
\<close>

definition observed ::
  "thrown + python_result \<times> file_store \<Rightarrow> thrown + (string \<times> string option) \<times> file_store" where
  "observed outcome =
     (case outcome of Inl e \<Rightarrow> Inl e | Inr (r, fs) \<Rightarrow> Inr (seen_of r, fs))"




section \<open>Facts about the file operations and the handlers\<close>

lemmas example_defs = worker_host_def base_host_def eacces_host_def example_request_def
  example_form_def empty_world_def example_parse_def ok_payload_def blocked_payload_def
  bare_payload_def linefeed_payload_def cyrillic_payload_def object_month_payload_def

subsection \<open>Header values and trimming\<close>

lemma header_text_ok_append [simp]:
  "header_text_ok (a @ b) = (header_text_ok a \<and> header_text_ok b)"
  by (auto simp: header_text_ok_def)

lemma header_normalize_framed:
  assumes "\<not> http_space a" and "\<not> http_space z"
  shows "header_normalize (a # s @ [z]) = a # s @ [z]"
  using assms by (simp add: header_normalize_def)

lemma disposition_normal:
  "header_normalize (''attachment; filename=\"'' @ f @ ''\"'') = ''attachment; filename=\"'' @ f @ ''\"''"
  using header_normalize_framed [of "CHR ''a''" "CHR 0x22" "''ttachment; filename=\"'' @ f"]
  by (simp add: http_space_def)

lemma disposition_ok:
  "header_value_ok (''attachment; filename=\"'' @ f @ ''\"'') = header_text_ok f"
  unfolding header_value_ok_def disposition_normal
  by (simp add: header_text_ok_def byte_string_char_def header_value_char_def)

lemma xlsx_type_ok:
  "header_value_ok xlsx_type" "header_normalize xlsx_type = xlsx_type"
  by (simp_all add: header_value_ok_def header_normalize_def xlsx_type_def http_space_def
      byte_string_char_def header_value_char_def)

lemma download_response_ok:
  "header_text_ok filename \<Longrightarrow>
   download_response H content filename =
     Inr \<lparr>resp_status = 200,
          resp_headers =
            [(''Content-Type'',
              ''application/vnd.openxmlformats-officedocument.spreadsheetml.sheet''),
             (''Content-Disposition'', ''attachment; filename=\"'' @ filename @ ''\"'')],
          resp_body = BinaryBody content\<rparr>"
  unfolding download_response_def NextResponse_new_def
  by (simp add: disposition_ok xlsx_type_ok disposition_normal del: append.simps)
    (simp add: xlsx_type_def)




lemma trim_examples:
  "js_trim ''OK'' \<noteq> []" "js_trim ''BLOCKED'' \<noteq> []" "js_trim ''BARE'' \<noteq> []"
  "js_trim ''null'' \<noteq> []" "js_trim ''LINEFEED'' \<noteq> []" "js_trim ''CYRILLIC'' \<noteq> []"
  "js_trim ''OBJECT'' \<noteq> []" "js_trim ''not json'' \<noteq> []"
  "js_trim ''PAYLOAD'' \<noteq> []" "js_trim ''PAYLOAD-SKIP'' \<noteq> []"
  "js_trim ''   '' = []"
  by (simp_all add: js_trim_def js_spaces_def trim_start.simps strip_space_def)

subsection \<open>Staging and the try block\<close>

lemma events_sinceI: "trace w' = trace w @ evs \<Longrightarrow> events_since w w' = evs"
  by (simp add: events_since_def)

lemma fileSync_ok:
  assumes "fileSync H postfix w = (Inr name, w')"
  shows "\<exists>stem. name = stem @ postfix" and "name \<notin> fst ` set (files w)"
    and "w' = w\<lparr>files := AList.update name [] (files w), tmp_calls := Suc (tmp_calls w),
                 trace := trace w @ [Created name]\<rparr>"
  using assms by (auto simp: fileSync_def Let_def split: sum.splits if_splits)

lemma writeTempFile_ok:
  assumes "writeTempFile H file postfix w = (Inr name, w')"
  shows "\<exists>stem. name = stem @ postfix"
    and "w' = w\<lparr>files := AList.update name (file_bytes file) (AList.update name [] (files w)),
                 tmp_calls := Suc (tmp_calls w),
                 trace := trace w @ [Created name, Wrote name]\<rparr>"
  using assms
  by (auto simp: writeTempFile_def fs_writeFile_def split: sum.splits prod.splits option.splits
      dest: fileSync_ok)

lemma runPython_trace:
  "runPython H args cwd w = (r, w') \<Longrightarrow>
     trace w' = trace w @ [Spawned (configured_python H) args] \<or>
     trace w' = trace w @ [Spawned (configured_python H) args, Spawned ''py'' args]"
  by (auto simp: runPython_def spawnPython_def Let_def split: sum.splits prod.splits if_splits)

lemma POST_generate_staged:
  assumes "formData req = Inr fd"
    and "map_of fd ''word'' = Some (FormFile word)"
    and "map_of fd ''excel'' = Some (FormFile excel)"
    and "writeTempFile H word ''.docx'' w = (Inr wordTmp, w1)"
    and "writeTempFile H excel ''.xlsx'' w1 = (Inr excelTmp, w2)"
    and "fileSync H ''.xlsx'' w2 = (Inr outTmp, w3)"
    and "generate_try H (map_of fd ''skipValidation'' = Some (FormString ''true''))
           wordTmp excelTmp outTmp w3 = (r, w4)"
  shows "POST_generate H req w =
           (Returned (generate_catch r),
            removeCallback outTmp (removeCallback excelTmp (removeCallback wordTmp w4)))"
  using assms by (simp add: POST_generate_def)

lemma generate_staged_trace:
  assumes "writeTempFile H word ''.docx'' w = (Inr wordTmp, w1)"
    and "writeTempFile H excel ''.xlsx'' w1 = (Inr excelTmp, w2)"
    and "fileSync H ''.xlsx'' w2 = (Inr outTmp, w3)"
  shows "trace w3 = trace w @ [Created wordTmp, Wrote wordTmp, Created excelTmp, Wrote excelTmp,
                               Created outTmp]"
  using writeTempFile_ok(2) [OF assms(1)] writeTempFile_ok(2) [OF assms(2)]
    fileSync_ok(3) [OF assms(3)]
  by simp

lemma generate_try_blocked:
  assumes "runPython H (generate_args H skip wordTmp excelTmp outTmp) (Some (process_cwd H)) w3
             = (Inr result, w4)"
    and "js_trim (stdout result) \<noteq> []"
    and "JSON_parse H (stdout result) = Inr payload"
    and "get_prop payload ''status'' = Inr st"
    and "st \<noteq> Some (JString ''ok'')"
  shows "generate_try H skip wordTmp excelTmp outTmp w3 = (Inr (NextResponse_json payload 422), w4)"
  using assms by (simp add: generate_try_def)

lemma generate_try_ok:
  assumes "runPython H (generate_args H skip wordTmp excelTmp outTmp) (Some (process_cwd H)) w3
             = (Inr result, w4)"
    and "js_trim (stdout result) \<noteq> []"
    and "JSON_parse H (stdout result) = Inr (JObject kvs)"
    and "map_of kvs ''status'' = Some (JString ''ok'')"
    and "map_of (files w4) outTmp = Some content"
    and "download_filename (JObject kvs) = Inr filename"
  shows "generate_try H skip wordTmp excelTmp outTmp w3 =
           (download_response H content filename,
            w4\<lparr>trace := trace w4 @ [ReadFile outTmp]\<rparr>)"
  using assms by (simp add: generate_try_def fs_readFile_def Let_def)

lemma generate_try_unprintable:
  assumes "runPython H (generate_args H skip wordTmp excelTmp outTmp) (Some (process_cwd H)) w3
             = (Inr result, w4)"
    and "js_trim (stdout result) \<noteq> []"
    and "JSON_parse H (stdout result) = Inr (JObject kvs)"
    and "map_of kvs ''status'' = Some (JString ''ok'')"
    and "map_of (files w4) outTmp = Some content"
    and "download_filename (JObject kvs) = Inl e"
  shows "generate_try H skip wordTmp excelTmp outTmp w3 =
           (Inl e, w4\<lparr>trace := trace w4 @ [ReadFile outTmp]\<rparr>)"
  using assms by (simp add: generate_try_def fs_readFile_def Let_def)

lemmas stage_defs = writeTempFile_def fileSync_def fs_writeFile_def fs_readFile_def
  runPython_def spawnPython_def configured_python_def generate_args_def analyze_args_def
  skip_flag_def path_join_def trim_examples isEnoent_def Let_def

lemma POST_analyze_staged:
  assumes "formData req = Inr fd"
    and "map_of fd ''word'' = Some (FormFile word)"
    and "map_of fd ''excel'' = Some (FormFile excel)"
    and "writeTempFile H word ''.docx'' w = (Inr wordTmp, w1)"
    and "writeTempFile H excel ''.xlsx'' w1 = (Inr excelTmp, w2)"
    and "analyze_try H (map_of fd ''skipValidation'' = Some (FormString ''true''))
           wordTmp excelTmp w2 = (r, w3)"
  shows "POST_analyze H req w =
           (Returned (analyze_catch r),
            removeCallback excelTmp (removeCallback wordTmp w3))"
  using assms by (simp add: POST_analyze_def)

lemma is_File_iff: "is_File v \<longleftrightarrow> (\<exists>f. v = Some (FormFile f))"
  by (cases v rule: is_File.cases) auto

lemma POST_missing_files:
  assumes "formData req = Inr fd"
    and "\<not> is_File (map_of fd ''word'') \<or> \<not> is_File (map_of fd ''excel'')"
  shows "POST_analyze H req w = (Returned missing_files_response, w)"
    and "POST_generate H req w = (Returned missing_files_response, w)"
  using assms
  by (auto simp: POST_analyze_def POST_generate_def is_File_iff
      split: option.splits form_value.splits)

lemma get_prop_Some_object: "get_prop payload k = Inr (Some v) \<Longrightarrow> \<exists>kvs. payload = JObject kvs"
  by (cases payload) auto

subsection \<open>The status of every response\<close>












subsection \<open>The arguments of every launch\<close>

lemma not_flag_last:
  assumes "s \<noteq> []" and "last s \<noteq> CHR ''n''"
  shows "p @ s \<noteq> ''--skip-validation''"
proof
  assume "p @ s = ''--skip-validation''"
  then have "last (p @ s) = last ''--skip-validation''" by simp
  with assms show False by simp
qed

lemma script_path_not_flag:
  "path_join [cwd, ''processor'', ''main.py''] \<noteq> ''--skip-validation''"
  using not_flag_last [of "''/processor/main.py''" cwd] by (simp add: path_join_def)

lemma analyze_args_flag:
  "(''--skip-validation'' \<in> set (analyze_args H s (sa @ ''.docx'') (sb @ ''.xlsx''))) = s"
  using not_flag_last [of "''.docx''" sa] not_flag_last [of "''.xlsx''" sb]
    script_path_not_flag [of "process_cwd H"]
  by (simp add: analyze_args_def skip_flag_def)

lemma fileSync_trace:
  "fileSync H p w = (r, w') \<Longrightarrow>
     \<exists>evs. trace w' = trace w @ evs \<and> (\<forall>c a. Spawned c a \<notin> set evs)"
  by (auto simp: fileSync_def Let_def split: sum.splits if_splits)

lemma writeTempFile_trace:
  "writeTempFile H f p w = (r, w') \<Longrightarrow>
     \<exists>evs. trace w' = trace w @ evs \<and> (\<forall>c a. Spawned c a \<notin> set evs)"
  by (auto simp: writeTempFile_def fs_writeFile_def fileSync_def Let_def
      split: sum.splits if_splits option.splits prod.splits)

lemma runPython_spawns:
  "runPython H args cwd w = (r, w') \<Longrightarrow>
     \<exists>evs. trace w' = trace w @ evs \<and> Spawned (configured_python H) args \<in> set evs \<and>
       (\<forall>c a. Spawned c a \<in> set evs \<longrightarrow> a = args) \<and> (\<forall>p. ReadFile p \<notin> set evs)"
  by (drule runPython_trace) auto

lemma analyze_try_world:
  "snd (analyze_try H s a b w) =
     snd (runPython H (analyze_args H s a b) (Some (process_cwd H)) w)"
  by (simp add: analyze_try_def split: prod.splits sum.splits)

lemma analyze_try_trace:
  "\<exists>evs. trace (snd (analyze_try H s a b w)) = trace w @ evs \<and>
           Spawned (configured_python H) (analyze_args H s a b) \<in> set evs \<and>
           (\<forall>c args. Spawned c args \<in> set evs \<longrightarrow> args = analyze_args H s a b)"
  using runPython_spawns [OF surjective_pairing, of H "analyze_args H s a b" "Some (process_cwd H)" w]
  unfolding analyze_try_world by blast

lemma generate_try_world:
  "snd (generate_try H s a b out w) =
     snd (runPython H (generate_args H s a b out) (Some (process_cwd H)) w) \<or>
   snd (generate_try H s a b out w) =
     snd (fs_readFile out (snd (runPython H (generate_args H s a b out) (Some (process_cwd H)) w)))"
  by (simp add: generate_try_def split: prod.splits sum.splits)

lemma fs_readFile_trace: "trace (snd (fs_readFile out w)) = trace w @ [ReadFile out]"
  by (simp add: fs_readFile_def Let_def split: option.splits)

lemma generate_try_trace:
  "\<exists>evs. trace (snd (generate_try H s a b out w)) = trace w @ evs \<and>
           Spawned (configured_python H) (generate_args H s a b out) \<in> set evs \<and>
           (\<forall>c args. Spawned c args \<in> set evs \<longrightarrow> args = generate_args H s a b out)"
proof -
  define w0 where "w0 = snd (runPython H (generate_args H s a b out) (Some (process_cwd H)) w)"
  define g where "g = snd (generate_try H s a b out w)"
  from runPython_spawns [OF surjective_pairing, of H "generate_args H s a b out" "Some (process_cwd H)" w]
  obtain evs where evs: "trace w0 = trace w @ evs"
    "Spawned (configured_python H) (generate_args H s a b out) \<in> set evs"
    "\<forall>c args. Spawned c args \<in> set evs \<longrightarrow> args = generate_args H s a b out"
    unfolding w0_def by blast
  from generate_try_world [of H s a b out w]
  consider (plain) "g = w0" | (read) "g = snd (fs_readFile out w0)"
    unfolding w0_def g_def by blast
  then have "\<exists>evs. trace g = trace w @ evs \<and>
           Spawned (configured_python H) (generate_args H s a b out) \<in> set evs \<and>
           (\<forall>c args. Spawned c args \<in> set evs \<longrightarrow> args = generate_args H s a b out)"
  proof cases
    case plain
    with evs show ?thesis by blast
  next
    case read
    then have "trace g = trace w @ (evs @ [ReadFile out])"
      by (simp only: fs_readFile_trace evs(1) append_assoc)
    moreover have "Spawned (configured_python H) (generate_args H s a b out) \<in> set (evs @ [ReadFile out])"
      using evs(2) by simp
    moreover have "\<forall>c args. Spawned c args \<in> set (evs @ [ReadFile out]) \<longrightarrow>
        args = generate_args H s a b out"
      using evs(3) by simp
    ultimately show ?thesis by blast
  qed
  then show ?thesis unfolding g_def .
qed

lemma generate_args_flag:
  "(''--skip-validation'' \<in>
      set (generate_args H s (sa @ ''.docx'') (sb @ ''.xlsx'') (so @ ''.xlsx''))) = s"
  using not_flag_last [of "''.docx''" sa] not_flag_last [of "''.xlsx''" sb]
    not_flag_last [of "''.xlsx''" so] script_path_not_flag [of "process_cwd H"]
  by (simp add: generate_args_def skip_flag_def)

lemma POST_analyze_word_fail:
  assumes "formData req = Inr fd"
    and "map_of fd ''word'' = Some (FormFile word)"
    and "map_of fd ''excel'' = Some (FormFile excel)"
    and "writeTempFile H word ''.docx'' w = (Inl e, w1)"
  shows "POST_analyze H req w = (Threw e, w1)" and "POST_generate H req w = (Threw e, w1)"
  using assms by (simp_all add: POST_analyze_def POST_generate_def)

lemma POST_analyze_excel_fail:
  assumes "formData req = Inr fd"
    and "map_of fd ''word'' = Some (FormFile word)"
    and "map_of fd ''excel'' = Some (FormFile excel)"
    and "writeTempFile H word ''.docx'' w = (Inr wordTmp, w1)"
    and "writeTempFile H excel ''.xlsx'' w1 = (Inl e, w2)"
  shows "POST_analyze H req w = (Threw e, w2)" and "POST_generate H req w = (Threw e, w2)"
  using assms by (simp_all add: POST_analyze_def POST_generate_def)

lemma POST_generate_out_fail:
  assumes "formData req = Inr fd"
    and "map_of fd ''word'' = Some (FormFile word)"
    and "map_of fd ''excel'' = Some (FormFile excel)"
    and "writeTempFile H word ''.docx'' w = (Inr wordTmp, w1)"
    and "writeTempFile H excel ''.xlsx'' w1 = (Inr excelTmp, w2)"
    and "fileSync H ''.xlsx'' w2 = (Inl e, w3)"
  shows "POST_generate H req w = (Threw e, w3)"
  using assms by (simp add: POST_generate_def)

lemma POST_analyze_staged_world:
  assumes "formData req = Inr fd"
    and "map_of fd ''word'' = Some (FormFile word)"
    and "map_of fd ''excel'' = Some (FormFile excel)"
    and "writeTempFile H word ''.docx'' w = (Inr wordTmp, w1)"
    and "writeTempFile H excel ''.xlsx'' w1 = (Inr excelTmp, w2)"
  shows "snd (POST_analyze H req w) =
           removeCallback excelTmp (removeCallback wordTmp
             (snd (analyze_try H (map_of fd ''skipValidation'' = Some (FormString ''true''))
                     wordTmp excelTmp w2)))"
  using assms by (simp add: POST_analyze_def split: prod.splits)

lemma POST_generate_staged_world:
  assumes "formData req = Inr fd"
    and "map_of fd ''word'' = Some (FormFile word)"
    and "map_of fd ''excel'' = Some (FormFile excel)"
    and "writeTempFile H word ''.docx'' w = (Inr wordTmp, w1)"
    and "writeTempFile H excel ''.xlsx'' w1 = (Inr excelTmp, w2)"
    and "fileSync H ''.xlsx'' w2 = (Inr outTmp, w3)"
  shows "snd (POST_generate H req w) =
           removeCallback outTmp (removeCallback excelTmp (removeCallback wordTmp
             (snd (generate_try H (map_of fd ''skipValidation'' = Some (FormString ''true''))
                     wordTmp excelTmp outTmp w3))))"
  using assms by (simp add: POST_generate_def split: prod.splits)

lemma POST_analyze_spawns:
  assumes fd: "formData req = Inr fd"
  shows "\<exists>evs. trace (snd (POST_analyze H req w)) = trace w @ evs \<and>
           (\<forall>c args. Spawned c args \<in> set evs \<longrightarrow>
              (''--skip-validation'' \<in> set args) =
              (map_of fd ''skipValidation'' = Some (FormString ''true'')))"
proof (cases "is_File (map_of fd ''word'') \<and> is_File (map_of fd ''excel'')")
  case False
  then have "snd (POST_analyze H req w) = w"
    using POST_missing_files(1) [OF fd, of H w] by simp
  then show ?thesis by simp
next
  case True
  then obtain word excel where files: "map_of fd ''word'' = Some (FormFile word)"
    "map_of fd ''excel'' = Some (FormFile excel)"
    by (auto simp: is_File_iff)
  obtain r1 w1 where s1: "writeTempFile H word ''.docx'' w = (r1, w1)"
    by (cases "writeTempFile H word ''.docx'' w")
  from writeTempFile_trace [OF s1] obtain evs1 where
    e1: "trace w1 = trace w @ evs1" "\<forall>c a. Spawned c a \<notin> set evs1" by blast
  show ?thesis
  proof (cases r1)
    case (Inl e)
    with s1 have "snd (POST_analyze H req w) = w1"
      using POST_analyze_word_fail(1) [OF fd files, of H w e w1] by simp
    with e1 show ?thesis by auto
  next
    case (Inr wordTmp)
    note s1' = s1 [unfolded Inr]
    obtain r2 w2 where s2: "writeTempFile H excel ''.xlsx'' w1 = (r2, w2)"
      by (cases "writeTempFile H excel ''.xlsx'' w1")
    from writeTempFile_trace [OF s2] obtain evs2 where
      e2: "trace w2 = trace w1 @ evs2" "\<forall>c a. Spawned c a \<notin> set evs2" by blast
    show ?thesis
    proof (cases r2)
      case (Inl e)
      with s2 have "snd (POST_analyze H req w) = w2"
        using POST_analyze_excel_fail(1) [OF fd files s1', of e w2] by simp
      with e1 e2 show ?thesis by auto
    next
      case (Inr excelTmp)
      note s2' = s2 [unfolded Inr]
      let ?skip = "map_of fd ''skipValidation'' = Some (FormString ''true'')"
      from writeTempFile_ok(1) [OF s1'] obtain sa where sa: "wordTmp = sa @ ''.docx''" ..
      from writeTempFile_ok(1) [OF s2'] obtain sb where sb: "excelTmp = sb @ ''.xlsx''" ..
      from analyze_try_trace [of H ?skip wordTmp excelTmp w2] obtain evs3 where
        e3: "trace (snd (analyze_try H ?skip wordTmp excelTmp w2)) = trace w2 @ evs3"
          "\<forall>c args. Spawned c args \<in> set evs3 \<longrightarrow> args = analyze_args H ?skip wordTmp excelTmp"
        by blast
      have "trace (snd (POST_analyze H req w)) =
              trace w @ (evs1 @ evs2 @ evs3 @ [Removed wordTmp, Removed excelTmp])"
        by (simp add: POST_analyze_staged_world [OF fd files s1' s2'] removeCallback_def e1 e2 e3)
      moreover have "\<forall>c args. Spawned c args \<in> set (evs1 @ evs2 @ evs3 @ [Removed wordTmp, Removed excelTmp])
           \<longrightarrow> (''--skip-validation'' \<in> set args) = ?skip"
        using e1(2) e2(2) e3(2) analyze_args_flag [of H ?skip sa sb] by (auto simp: sa sb)
      ultimately show ?thesis by blast
    qed
  qed
qed

lemma POST_generate_spawns:
  assumes fd: "formData req = Inr fd"
  shows "\<exists>evs. trace (snd (POST_generate H req w)) = trace w @ evs \<and>
           (\<forall>c args. Spawned c args \<in> set evs \<longrightarrow>
              (''--skip-validation'' \<in> set args) =
              (map_of fd ''skipValidation'' = Some (FormString ''true'')))"
proof (cases "is_File (map_of fd ''word'') \<and> is_File (map_of fd ''excel'')")
  case False
  then have "snd (POST_generate H req w) = w"
    using POST_missing_files(2) [OF fd, of H w] by simp
  then show ?thesis by simp
next
  case True
  then obtain word excel where files: "map_of fd ''word'' = Some (FormFile word)"
    "map_of fd ''excel'' = Some (FormFile excel)"
    by (auto simp: is_File_iff)
  obtain r1 w1 where s1: "writeTempFile H word ''.docx'' w = (r1, w1)"
    by (cases "writeTempFile H word ''.docx'' w")
  from writeTempFile_trace [OF s1] obtain evs1 where
    e1: "trace w1 = trace w @ evs1" "\<forall>c a. Spawned c a \<notin> set evs1" by blast
  show ?thesis
  proof (cases r1)
    case (Inl e)
    with s1 have "snd (POST_generate H req w) = w1"
      using POST_analyze_word_fail(2) [OF fd files, of H w e w1] by simp
    with e1 show ?thesis by auto
  next
    case (Inr wordTmp)
    note s1' = s1 [unfolded Inr]
    obtain r2 w2 where s2: "writeTempFile H excel ''.xlsx'' w1 = (r2, w2)"
      by (cases "writeTempFile H excel ''.xlsx'' w1")
    from writeTempFile_trace [OF s2] obtain evs2 where
      e2: "trace w2 = trace w1 @ evs2" "\<forall>c a. Spawned c a \<notin> set evs2" by blast
    show ?thesis
    proof (cases r2)
      case (Inl e)
      with s2 have "snd (POST_generate H req w) = w2"
        using POST_analyze_excel_fail(2) [OF fd files s1', of e w2] by simp
      with e1 e2 show ?thesis by auto
    next
      case (Inr excelTmp)
      note s2' = s2 [unfolded Inr]
      obtain r3 w3 where s3: "fileSync H ''.xlsx'' w2 = (r3, w3)"
        by (cases "fileSync H ''.xlsx'' w2")
      from fileSync_trace [OF s3] obtain evs3 where
        e3: "trace w3 = trace w2 @ evs3" "\<forall>c a. Spawned c a \<notin> set evs3" by blast
      show ?thesis
      proof (cases r3)
        case (Inl e)
        with s3 have "snd (POST_generate H req w) = w3"
          using POST_generate_out_fail [OF fd files s1' s2', of e w3] by simp
        with e1 e2 e3 show ?thesis by auto
      next
        case (Inr outTmp)
        note s3' = s3 [unfolded Inr]
        let ?skip = "map_of fd ''skipValidation'' = Some (FormString ''true'')"
        from writeTempFile_ok(1) [OF s1'] obtain sa where sa: "wordTmp = sa @ ''.docx''" ..
        from writeTempFile_ok(1) [OF s2'] obtain sb where sb: "excelTmp = sb @ ''.xlsx''" ..
        from fileSync_ok(1) [OF s3'] obtain so where so: "outTmp = so @ ''.xlsx''" ..
        from generate_try_trace [of H ?skip wordTmp excelTmp outTmp w3] obtain evs4 where
          e4: "trace (snd (generate_try H ?skip wordTmp excelTmp outTmp w3)) = trace w3 @ evs4"
            "\<forall>c args. Spawned c args \<in> set evs4 \<longrightarrow>
               args = generate_args H ?skip wordTmp excelTmp outTmp"
          by blast
        have "trace (snd (POST_generate H req w)) =
                trace w @ (evs1 @ evs2 @ evs3 @ evs4 @
                  [Removed wordTmp, Removed excelTmp, Removed outTmp])"
          by (simp add: POST_generate_staged_world [OF fd files s1' s2' s3'] removeCallback_def
              e1 e2 e3 e4)
        moreover have "\<forall>c args. Spawned c args \<in> set (evs1 @ evs2 @ evs3 @ evs4 @
                  [Removed wordTmp, Removed excelTmp, Removed outTmp])
             \<longrightarrow> (''--skip-validation'' \<in> set args) = ?skip"
          using e1(2) e2(2) e3(2) e4(2) generate_args_flag [of H ?skip sa sb so]
          by (auto simp: sa sb so)
        ultimately show ?thesis by blast
      qed
    qed
  qed
qed

lemma analyze_staged_trace:
  assumes "writeTempFile H word ''.docx'' w = (Inr wordTmp, w1)"
    and "writeTempFile H excel ''.xlsx'' w1 = (Inr excelTmp, w2)"
  shows "trace w2 = trace w @ [Created wordTmp, Wrote wordTmp, Created excelTmp, Wrote excelTmp]"
  using writeTempFile_ok(2) [OF assms(1)] writeTempFile_ok(2) [OF assms(2)]
  by simp

lemma POST_analyze_does_spawn:
  assumes "formData req = Inr fd"
    and "map_of fd ''word'' = Some (FormFile word)"
    and "map_of fd ''excel'' = Some (FormFile excel)"
    and "writeTempFile H word ''.docx'' w = (Inr wordTmp, w1)"
    and "writeTempFile H excel ''.xlsx'' w1 = (Inr excelTmp, w2)"
  shows "\<exists>c args. Spawned c args \<in> set (events_since w (snd (POST_analyze H req w)))"
proof -
  let ?skip = "map_of fd ''skipValidation'' = Some (FormString ''true'')"
  from analyze_try_trace [of H ?skip wordTmp excelTmp w2] obtain evs where
    e: "trace (snd (analyze_try H ?skip wordTmp excelTmp w2)) = trace w2 @ evs"
      "Spawned (configured_python H) (analyze_args H ?skip wordTmp excelTmp) \<in> set evs"
    by blast
  have "trace (snd (POST_analyze H req w)) =
          trace w @ ([Created wordTmp, Wrote wordTmp, Created excelTmp, Wrote excelTmp] @ evs @
            [Removed wordTmp, Removed excelTmp])"
    by (simp add: POST_analyze_staged_world [OF assms] removeCallback_def e(1)
        analyze_staged_trace [OF assms(4,5)])
  then have "events_since w (snd (POST_analyze H req w)) =
          [Created wordTmp, Wrote wordTmp, Created excelTmp, Wrote excelTmp] @ evs @
            [Removed wordTmp, Removed excelTmp]"
    by (rule events_sinceI)
  with e(2) show ?thesis by auto
qed

lemma POST_generate_does_spawn:
  assumes "formData req = Inr fd"
    and "map_of fd ''word'' = Some (FormFile word)"
    and "map_of fd ''excel'' = Some (FormFile excel)"
    and "writeTempFile H word ''.docx'' w = (Inr wordTmp, w1)"
    and "writeTempFile H excel ''.xlsx'' w1 = (Inr excelTmp, w2)"
    and "fileSync H ''.xlsx'' w2 = (Inr outTmp, w3)"
  shows "\<exists>c args. Spawned c args \<in> set (events_since w (snd (POST_generate H req w)))"
proof -
  let ?skip = "map_of fd ''skipValidation'' = Some (FormString ''true'')"
  from generate_try_trace [of H ?skip wordTmp excelTmp outTmp w3] obtain evs where
    e: "trace (snd (generate_try H ?skip wordTmp excelTmp outTmp w3)) = trace w3 @ evs"
      "Spawned (configured_python H) (generate_args H ?skip wordTmp excelTmp outTmp) \<in> set evs"
    by blast
  have "trace (snd (POST_generate H req w)) =
          trace w @ ([Created wordTmp, Wrote wordTmp, Created excelTmp, Wrote excelTmp,
                      Created outTmp] @ evs @
            [Removed wordTmp, Removed excelTmp, Removed outTmp])"
    by (simp add: POST_generate_staged_world [OF assms] removeCallback_def e(1)
        generate_staged_trace [OF assms(4-6)])
  then have "events_since w (snd (POST_generate H req w)) =
          [Created wordTmp, Wrote wordTmp, Created excelTmp, Wrote excelTmp, Created outTmp] @ evs @
            [Removed wordTmp, Removed excelTmp, Removed outTmp]"
    by (rule events_sinceI)
  with e(2) show ?thesis by auto
qed

subsection \<open>Removal of the staged files\<close>

lemma delete_twice_notin:
  "k \<notin> fst ` set (AList.delete k' (AList.delete k al))"
  using dom_delete_subset [of k' "AList.delete k al"] delete_notin_dom [of k al] by blast

lemma delete_thrice_notin:
  "k \<notin> fst ` set (AList.delete k'' (AList.delete k' (AList.delete k al)))"
  using dom_delete_subset [of k'' "AList.delete k' (AList.delete k al)"]
    delete_twice_notin [of k k' al] by blast

lemma files_removeCallback: "files (removeCallback name w) = AList.delete name (files w)"
  by (simp add: removeCallback_def)

lemma staged_files_released:
  assumes "formData req = Inr fd"
    and "map_of fd ''word'' = Some (FormFile word)"
    and "map_of fd ''excel'' = Some (FormFile excel)"
    and "writeTempFile H word ''.docx'' w = (Inr wordTmp, w1)"
    and "writeTempFile H excel ''.xlsx'' w1 = (Inr excelTmp, w2)"
  shows "wordTmp \<notin> fst ` set (files (snd (POST_analyze H req w)))"
    and "excelTmp \<notin> fst ` set (files (snd (POST_analyze H req w)))"
    and "fileSync H ''.xlsx'' w2 = (Inr outTmp, w3) \<Longrightarrow>
           wordTmp \<notin> fst ` set (files (snd (POST_generate H req w))) \<and>
           excelTmp \<notin> fst ` set (files (snd (POST_generate H req w))) \<and>
           outTmp \<notin> fst ` set (files (snd (POST_generate H req w)))"
proof -
  show "wordTmp \<notin> fst ` set (files (snd (POST_analyze H req w)))"
    by (simp only: POST_analyze_staged_world [OF assms] files_removeCallback
        delete_twice_notin not_False_eq_True)
  show "excelTmp \<notin> fst ` set (files (snd (POST_analyze H req w)))"
    by (simp only: POST_analyze_staged_world [OF assms] files_removeCallback
        delete_notin_dom not_False_eq_True)
  show "wordTmp \<notin> fst ` set (files (snd (POST_generate H req w))) \<and>
           excelTmp \<notin> fst ` set (files (snd (POST_generate H req w))) \<and>
           outTmp \<notin> fst ` set (files (snd (POST_generate H req w)))"
    if "fileSync H ''.xlsx'' w2 = (Inr outTmp, w3)"
    by (simp only: POST_generate_staged_world [OF assms that] files_removeCallback
        delete_notin_dom delete_twice_notin delete_thrice_notin not_False_eq_True simp_thms)
qed

subsection \<open>What the handlers see of a worker run\<close>

lemma spawnPython_observed:
  assumes "observed (sp c a d (files w)) = observed (child_spawn H c a d (files w))"
  shows "snd (spawnPython (H\<lparr>child_spawn := sp\<rparr>) c a d w) = snd (spawnPython H c a d w)"
    and "map_sum id seen_of (fst (spawnPython (H\<lparr>child_spawn := sp\<rparr>) c a d w)) =
         map_sum id seen_of (fst (spawnPython H c a d w))"
  using assms
  by (auto simp: spawnPython_def observed_def Let_def split: sum.splits prod.splits)

lemma map_sum_seen_Inl:
  "map_sum id seen_of x = map_sum id seen_of (Inl e) \<Longrightarrow> x = Inl e"
  by (cases x) auto

lemma runPython_observed:
  assumes "\<forall>c a d fs. observed (sp c a d fs) = observed (child_spawn H c a d fs)"
  shows "snd (runPython (H\<lparr>child_spawn := sp\<rparr>) args cwd w) = snd (runPython H args cwd w)"
    and "map_sum id seen_of (fst (runPython (H\<lparr>child_spawn := sp\<rparr>) args cwd w)) =
         map_sum id seen_of (fst (runPython H args cwd w))"
proof -
  let ?H' = "H\<lparr>child_spawn := sp\<rparr>"
  let ?c = "configured_python H"
  have conf: "configured_python ?H' = ?c" by (simp add: configured_python_def)
  have obs: "observed (sp c a d (files v)) = observed (child_spawn H c a d (files v))" for c a d v
    using assms by blast
  note first = spawnPython_observed [where sp = sp and H = H and c = ?c and a = args
      and d = cwd and w = w, OF obs]
  obtain r1 w1 where s1: "spawnPython H ?c args cwd w = (r1, w1)"
    by (cases "spawnPython H ?c args cwd w")
  obtain r1' where s1': "spawnPython ?H' ?c args cwd w = (r1', w1)"
    using first(1) s1 by (cases "spawnPython ?H' ?c args cwd w") simp
  have rel: "map_sum id seen_of r1' = map_sum id seen_of r1"
    using first(2) s1 s1' by simp
  note second = spawnPython_observed [where sp = sp and H = H and c = "''py''" and a = args
      and d = cwd and w = w1, OF obs]
  have both: "snd (runPython ?H' args cwd w) = snd (runPython H args cwd w) \<and>
     map_sum id seen_of (fst (runPython ?H' args cwd w)) =
       map_sum id seen_of (fst (runPython H args cwd w))"
  proof (cases r1)
    case (Inl e)
    with rel have "r1' = Inl e" by (rule_tac map_sum_seen_Inl) simp
    with Inl s1 s1' second show ?thesis
      by (simp add: runPython_def conf Let_def)
  next
    case (Inr res)
    with rel obtain res' where "r1' = Inr res'" "seen_of res' = seen_of res"
      by (cases r1') auto
    with Inr s1 s1' show ?thesis
      by (simp add: runPython_def conf Let_def)
  qed
  from both show "snd (runPython ?H' args cwd w) = snd (runPython H args cwd w)" ..
  from both show "map_sum id seen_of (fst (runPython ?H' args cwd w)) =
       map_sum id seen_of (fst (runPython H args cwd w))" ..
qed

lemma analyze_try_observed:
  assumes "\<forall>c a d fs. observed (sp c a d fs) = observed (child_spawn H c a d fs)"
  shows "analyze_try (H\<lparr>child_spawn := sp\<rparr>) s a b w = analyze_try H s a b w"
proof -
  let ?H' = "H\<lparr>child_spawn := sp\<rparr>"
  let ?args = "analyze_args H s a b"
  have args: "analyze_args ?H' s a b = ?args" by (simp add: analyze_args_def)
  note run = runPython_observed [OF assms, of ?args "Some (process_cwd H)" w]
  obtain r w1 where r: "runPython H ?args (Some (process_cwd H)) w = (r, w1)"
    by (cases "runPython H ?args (Some (process_cwd H)) w")
  obtain r' where r': "runPython ?H' ?args (Some (process_cwd H)) w = (r', w1)"
    using run(1) r by (cases "runPython ?H' ?args (Some (process_cwd H)) w") simp
  have rel: "map_sum id seen_of r' = map_sum id seen_of r"
    using run(2) r r' by simp
  show ?thesis
  proof (cases r)
    case (Inl e)
    with rel have "r' = Inl e" by (rule_tac map_sum_seen_Inl) simp
    with Inl r r' show ?thesis by (simp add: analyze_try_def args)
  next
    case (Inr res)
    with rel obtain res' where "r' = Inr res'" "seen_of res' = seen_of res"
      by (cases r') auto
    with Inr r r' show ?thesis
      by (auto simp: analyze_try_def args seen_of_def split: if_splits)
  qed
qed

lemma generate_try_observed:
  assumes "\<forall>c a d fs. observed (sp c a d fs) = observed (child_spawn H c a d fs)"
  shows "generate_try (H\<lparr>child_spawn := sp\<rparr>) s a b out w = generate_try H s a b out w"
proof -
  let ?H' = "H\<lparr>child_spawn := sp\<rparr>"
  let ?args = "generate_args H s a b out"
  have args: "generate_args ?H' s a b out = ?args"
    "download_response ?H' = download_response H"
    by (simp_all add: generate_args_def download_response_def NextResponse_new_def fun_eq_iff)
  note run = runPython_observed [OF assms, of ?args "Some (process_cwd H)" w]
  obtain r w1 where r: "runPython H ?args (Some (process_cwd H)) w = (r, w1)"
    by (cases "runPython H ?args (Some (process_cwd H)) w")
  obtain r' where r': "runPython ?H' ?args (Some (process_cwd H)) w = (r', w1)"
    using run(1) r by (cases "runPython ?H' ?args (Some (process_cwd H)) w") simp
  have rel: "map_sum id seen_of r' = map_sum id seen_of r"
    using run(2) r r' by simp
  show ?thesis
  proof (cases r)
    case (Inl e)
    with rel have "r' = Inl e" by (rule_tac map_sum_seen_Inl) simp
    with Inl r r' show ?thesis by (simp add: generate_try_def args)
  next
    case (Inr res)
    with rel obtain res' where "r' = Inr res'" "seen_of res' = seen_of res"
      by (cases r') auto
    with Inr r r' show ?thesis
      by (auto simp: generate_try_def args seen_of_def split: if_splits sum.splits prod.splits)
  qed
qed

lemma fs_writeFile_ignores_spawn:
  "fs_writeFile (H\<lparr>child_spawn := sp\<rparr>) p c w = fs_writeFile H p c w"
  by (simp add: fs_writeFile_def)

lemma fileSync_ignores_spawn:
  "fileSync (H\<lparr>child_spawn := sp\<rparr>) p w = fileSync H p w"
  by (simp add: fileSync_def)

lemma writeTempFile_ignores_spawn:
  "writeTempFile (H\<lparr>child_spawn := sp\<rparr>) f p w = writeTempFile H f p w"
  unfolding writeTempFile_def fs_writeFile_ignores_spawn fileSync_ignores_spawn
  by (rule refl)

lemma POST_observed:
  assumes "\<forall>c a d fs. observed (sp c a d fs) = observed (child_spawn H c a d fs)"
  shows "POST_analyze (H\<lparr>child_spawn := sp\<rparr>) req w = POST_analyze H req w"
    and "POST_generate (H\<lparr>child_spawn := sp\<rparr>) req w = POST_generate H req w"
  unfolding POST_analyze_def POST_generate_def writeTempFile_ignores_spawn
    fileSync_ignores_spawn analyze_try_observed [OF assms] generate_try_observed [OF assms]
  by (rule refl)+

subsection \<open>The page and the gate\<close>












section \<open>runPython\<close>

text \<open>
  C10, as the code has it. runPython launches the interpreter named by the first of
  PYTHON_EXECUTABLE, PYTHON, PYTHON_BIN that is set to a non-empty value, and python
  when none is. When that spawn resolves, its result is returned after one launch. When
  it fails with ENOENT and the command is not py, py is launched once more with the same
  arguments and the outcome of that second launch, result or error, is the outcome of
  runPython. Any other failure of the first spawn throws an Error whose message is
  "Failed to start Python: " followed by the details of the failure.
\<close>

theorem runPython_launch_retry_wrap:
  "(\<forall>s. process_env H ''PYTHON_EXECUTABLE'' = Some s \<and> s \<noteq> [] \<longrightarrow> configured_python H = s)
 \<and> (\<forall>s. unset_or_empty (process_env H ''PYTHON_EXECUTABLE'') \<and>
        process_env H ''PYTHON'' = Some s \<and> s \<noteq> [] \<longrightarrow> configured_python H = s)
 \<and> (\<forall>s. unset_or_empty (process_env H ''PYTHON_EXECUTABLE'') \<and>
        unset_or_empty (process_env H ''PYTHON'') \<and>
        process_env H ''PYTHON_BIN'' = Some s \<and> s \<noteq> [] \<longrightarrow> configured_python H = s)
 \<and> (unset_or_empty (process_env H ''PYTHON_EXECUTABLE'') \<and>
        unset_or_empty (process_env H ''PYTHON'') \<and>
        unset_or_empty (process_env H ''PYTHON_BIN'') \<longrightarrow> configured_python H = ''python'')
 \<and> (\<forall>res fs'. child_spawn H (configured_python H) args cwd (files w) = Inr (res, fs') \<longrightarrow>
        runPython H args cwd w =
          (Inr res, w\<lparr>trace := trace w @ [Spawned (configured_python H) args], files := fs'\<rparr>))
 \<and> (\<forall>e. child_spawn H (configured_python H) args cwd (files w) = Inl e \<and>
        isEnoent e \<and> configured_python H \<noteq> ''py'' \<longrightarrow>
        trace (snd (runPython H args cwd w)) =
          trace w @ [Spawned (configured_python H) args, Spawned ''py'' args] \<and>
        fst (runPython H args cwd w) =
          (case child_spawn H ''py'' args cwd (files w) of
             Inl e2 \<Rightarrow> Inl e2 | Inr (res, fs') \<Rightarrow> Inr res))
 \<and> (\<forall>e. child_spawn H (configured_python H) args cwd (files w) = Inl e \<and>
        \<not> (isEnoent e \<and> configured_python H \<noteq> ''py'') \<longrightarrow>
        runPython H args cwd w =
          (Inl (JsError ''Error'' (''Failed to start Python: '' @ error_details e) None),
           w\<lparr>trace := trace w @ [Spawned (configured_python H) args]\<rparr>) \<and>
        starts_with ''Failed to start Python: ''
          (''Failed to start Python: '' @ error_details e))"
  by (auto simp: runPython_def spawnPython_def configured_python_def unset_or_empty_def
      starts_with_def Let_def split: sum.splits prod.splits)

theorem runPython_launch_retry_wrap_witness:
  "configured_python (worker_host ''OK'' [] (Some 0) None) = ''python3''
 \<and> runPython (worker_host ''OK'' [] (Some 0) None) [] None empty_world =
      (Inr \<lparr>stdout = ''OK'', stderr = [], exitCode = Some 0\<rparr>,
       \<lparr>files = [], tmp_calls = 0, trace = [Spawned ''python3'' []]\<rparr>)
 \<and> configured_python base_host = ''python''
 \<and> trace (snd (runPython base_host [] None empty_world)) =
      [Spawned ''python'' [], Spawned ''py'' []]
 \<and> runPython eacces_host [] None empty_world =
      (Inl (JsError ''Error'' ''Failed to start Python: spawn python EACCES'' None),
       \<lparr>files = [], tmp_calls = 0, trace = [Spawned ''python'' []]\<rparr>)"
  using runPython_launch_retry_wrap [of "worker_host ''OK'' [] (Some 0) None" "[]" None empty_world]
    runPython_launch_retry_wrap [of base_host "[]" None empty_world]
    runPython_launch_retry_wrap [of eacces_host "[]" None empty_world]
  by (simp add: worker_host_def base_host_def eacces_host_def empty_world_def
      unset_or_empty_def isEnoent_def starts_with_def)

text \<open>
  The claim as stated fails where the retry fails: with no interpreter installed, the
  launch of python fails with ENOENT, the launch of py fails as well, and the error thrown
  is that of the second launch, whose message does not begin with
  "Failed to start Python: ".
\<close>

theorem runPython_retry_failure_unwrapped:
  "child_spawn base_host ''py'' [] None [] =
     Inl (JsError ''Error'' ''spawn py ENOENT'' (Some ''ENOENT''))
 \<and> runPython base_host [] None empty_world =
     (Inl (JsError ''Error'' ''spawn py ENOENT'' (Some ''ENOENT'')),
      \<lparr>files = [], tmp_calls = 0, trace = [Spawned ''python'' [], Spawned ''py'' []]\<rparr>)
 \<and> \<not> starts_with ''Failed to start Python: '' ''spawn py ENOENT''"
  by (simp add: runPython_def spawnPython_def configured_python_def base_host_def
      empty_world_def isEnoent_def starts_with_def)

section \<open>The generate endpoint\<close>

text \<open>
  C1. A POST to the generate endpoint whose pipeline payload has a status other than "ok"
  (the files were staged, the worker resolved with non-blank output that parses to a
  payload whose \<open>status\<close> property is not the string "ok") returns that payload as JSON
  with HTTP status 422, and the run performs no read of any file: the output spreadsheet
  is neither read nor returned.
\<close>

theorem generate_blocked_422_no_read:
  assumes "formData req = Inr fd"
    and "map_of fd ''word'' = Some (FormFile word)"
    and "map_of fd ''excel'' = Some (FormFile excel)"
    and "writeTempFile H word ''.docx'' w = (Inr wordTmp, w1)"
    and "writeTempFile H excel ''.xlsx'' w1 = (Inr excelTmp, w2)"
    and "fileSync H ''.xlsx'' w2 = (Inr outTmp, w3)"
    and "runPython H
           (generate_args H (map_of fd ''skipValidation'' = Some (FormString ''true''))
              wordTmp excelTmp outTmp)
           (Some (process_cwd H)) w3 = (Inr result, w4)"
    and "js_trim (stdout result) \<noteq> []"
    and "JSON_parse H (stdout result) = Inr payload"
    and "get_prop payload ''status'' = Inr st"
    and "st \<noteq> Some (JString ''ok'')"
  shows "fst (POST_generate H req w) =
           Returned \<lparr>resp_status = 422,
                     resp_headers = [(''content-type'', ''application/json'')],
                     resp_body = JsonBody payload\<rparr>
       \<and> (\<forall>p. ReadFile p \<notin> set (events_since w (snd (POST_generate H req w))))"
proof -
  let ?skip = "map_of fd ''skipValidation'' = Some (FormString ''true'')"
  have tried: "generate_try H ?skip wordTmp excelTmp outTmp w3 =
               (Inr (NextResponse_json payload 422), w4)"
    using assms(7-11) by (rule generate_try_blocked)
  have post: "POST_generate H req w =
                (Returned (NextResponse_json payload 422),
                 removeCallback outTmp (removeCallback excelTmp (removeCallback wordTmp w4)))"
    using POST_generate_staged [OF assms(1-6) tried] by (simp add: generate_catch_def)
  have staged: "trace w3 = trace w @ [Created wordTmp, Wrote wordTmp, Created excelTmp,
                                      Wrote excelTmp, Created outTmp]"
    using assms(4-6) by (rule generate_staged_trace)
  from runPython_trace [OF assms(7)] staged
  have "\<exists>evs. trace (snd (POST_generate H req w)) = trace w @ evs \<and> (\<forall>p. ReadFile p \<notin> set evs)"
    by (auto simp: post removeCallback_def)
  then have "\<forall>p. ReadFile p \<notin> set (events_since w (snd (POST_generate H req w)))"
    by (auto simp: events_since_def)
  with post show ?thesis by (simp add: NextResponse_json_def)
qed

theorem generate_blocked_422_no_read_witness:
  "fst (POST_generate (worker_host ''BLOCKED'' [] (Some 2) None) (example_request ''false'')
         empty_world) =
     Returned \<lparr>resp_status = 422,
               resp_headers = [(''content-type'', ''application/json'')],
               resp_body = JsonBody blocked_payload\<rparr>
 \<and> ReadFile ''/tmp/tmp-aaa.xlsx'' \<notin>
     set (events_since empty_world
            (snd (POST_generate (worker_host ''BLOCKED'' [] (Some 2) None)
                    (example_request ''false'') empty_world)))"
proof -
  let ?H = "worker_host ''BLOCKED'' [] (Some 2) None"
  let ?word = "\<lparr>file_name = ''june.docx'', file_bytes = ''DOCX''\<rparr>"
  let ?excel = "\<lparr>file_name = ''may.xlsx'', file_bytes = ''XLSX''\<rparr>"
  let ?w1 = "snd (writeTempFile ?H ?word ''.docx'' empty_world)"
  let ?w2 = "snd (writeTempFile ?H ?excel ''.xlsx'' ?w1)"
  let ?w3 = "snd (fileSync ?H ''.xlsx'' ?w2)"
  let ?args = "generate_args ?H False ''/tmp/tmp-a.docx'' ''/tmp/tmp-aa.xlsx'' ''/tmp/tmp-aaa.xlsx''"
  let ?w4 = "snd (runPython ?H ?args (Some ''/app'') ?w3)"
  show ?thesis
    using generate_blocked_422_no_read
      [of "example_request ''false''" "example_form ''false''" ?word ?excel ?H empty_world
        "''/tmp/tmp-a.docx''" ?w1 "''/tmp/tmp-aa.xlsx''" ?w2 "''/tmp/tmp-aaa.xlsx''" ?w3
        "\<lparr>stdout = ''BLOCKED'', stderr = [], exitCode = Some 2\<rparr>" ?w4
        blocked_payload "Some (JString ''validation_error'')"]
    by (simp add: example_defs writeTempFile_def fileSync_def fs_writeFile_def runPython_def
        spawnPython_def configured_python_def generate_args_def skip_flag_def path_join_def
        trim_examples isEnoent_def Let_def
        header_text_ok_def byte_string_char_def header_value_char_def)
qed






text \<open>
  C9. When the success payload has no report, or a report that is \<open>null\<close> or no object,
  or a report whose reportMonth is missing or \<open>null\<close>, the response is still the
  download, named "report_updated_report.xlsx".
\<close>

theorem generate_filename_fallback:
  assumes "formData req = Inr fd"
    and "map_of fd ''word'' = Some (FormFile word)"
    and "map_of fd ''excel'' = Some (FormFile excel)"
    and "writeTempFile H word ''.docx'' w = (Inr wordTmp, w1)"
    and "writeTempFile H excel ''.xlsx'' w1 = (Inr excelTmp, w2)"
    and "fileSync H ''.xlsx'' w2 = (Inr outTmp, w3)"
    and "runPython H
           (generate_args H (map_of fd ''skipValidation'' = Some (FormString ''true''))
              wordTmp excelTmp outTmp)
           (Some (process_cwd H)) w3 = (Inr result, w4)"
    and "js_trim (stdout result) \<noteq> []"
    and "JSON_parse H (stdout result) = Inr (JObject kvs)"
    and "map_of kvs ''status'' = Some (JString ''ok'')"
    and "map_of (files w4) outTmp = Some content"
    and "\<forall>rkvs. map_of kvs ''report'' = Some (JObject rkvs) \<longrightarrow>
           map_of rkvs ''reportMonth'' = None \<or> map_of rkvs ''reportMonth'' = Some JNull"
  shows "fst (POST_generate H req w) =
           Returned
             \<lparr>resp_status = 200,
              resp_headers =
                [(''Content-Type'',
                  ''application/vnd.openxmlformats-officedocument.spreadsheetml.sheet''),
                 (''Content-Disposition'', ''attachment; filename=\"report_updated_report.xlsx\"'')],
              resp_body = BinaryBody content\<rparr>"
proof -
  have "nullish (opt_chain (map_of kvs ''report'') ''reportMonth'') (JString ''report'')
          = JString ''report''"
  proof (cases "map_of kvs ''report''")
    case None
    then show ?thesis by simp
  next
    case (Some v)
    with assms(12) show ?thesis by (cases v) auto
  qed
  then have name: "download_filename (JObject kvs) = Inr ''report_updated_report.xlsx''"
    by (simp add: download_filename_def)
  note tried = generate_try_ok [OF assms(7-11) name]
  have "header_text_ok ''report_updated_report.xlsx''"
    by (simp add: header_text_ok_def byte_string_char_def header_value_char_def)
  from download_response_ok [OF this, of H content] show ?thesis
    using POST_generate_staged [OF assms(1-6) tried]
    by (simp add: generate_catch_def)
qed

theorem generate_filename_fallback_witness:
  "fst (POST_generate (worker_host ''BARE'' [] (Some 0) (Some ''NEWXLSX''))
         (example_request ''false'') empty_world) =
     Returned
       \<lparr>resp_status = 200,
        resp_headers =
          [(''Content-Type'',
            ''application/vnd.openxmlformats-officedocument.spreadsheetml.sheet''),
           (''Content-Disposition'', ''attachment; filename=\"report_updated_report.xlsx\"'')],
        resp_body = BinaryBody ''NEWXLSX''\<rparr>"
proof -
  let ?H = "worker_host ''BARE'' [] (Some 0) (Some ''NEWXLSX'')"
  let ?word = "\<lparr>file_name = ''june.docx'', file_bytes = ''DOCX''\<rparr>"
  let ?excel = "\<lparr>file_name = ''may.xlsx'', file_bytes = ''XLSX''\<rparr>"
  let ?w1 = "snd (writeTempFile ?H ?word ''.docx'' empty_world)"
  let ?w2 = "snd (writeTempFile ?H ?excel ''.xlsx'' ?w1)"
  let ?w3 = "snd (fileSync ?H ''.xlsx'' ?w2)"
  let ?args = "generate_args ?H False ''/tmp/tmp-a.docx'' ''/tmp/tmp-aa.xlsx'' ''/tmp/tmp-aaa.xlsx''"
  let ?w4 = "snd (runPython ?H ?args (Some ''/app'') ?w3)"
  show ?thesis
    using generate_filename_fallback
      [of "example_request ''false''" "example_form ''false''" ?word ?excel ?H empty_world
        "''/tmp/tmp-a.docx''" ?w1 "''/tmp/tmp-aa.xlsx''" ?w2 "''/tmp/tmp-aaa.xlsx''" ?w3
        "\<lparr>stdout = ''BARE'', stderr = [], exitCode = Some 0\<rparr>" ?w4
        "[(''status'', JString ''ok'')]" "''NEWXLSX''"]
    by (simp add: example_defs writeTempFile_def fileSync_def fs_writeFile_def runPython_def
        spawnPython_def configured_python_def generate_args_def skip_flag_def path_join_def
        trim_examples isEnoent_def Let_def
        header_text_ok_def byte_string_char_def header_value_char_def)
qed


section \<open>Both endpoints: the status convention\<close>





section \<open>Both endpoints: the skip-validation flag\<close>

text \<open>
  C3. In every run of the analyze or the generate handler, each launch of the worker
  carries \<open>--skip-validation\<close> among its arguments if and only if the form field
  \<open>skipValidation\<close> is the string "true"; an absent field, a file, or any other string
  ("TRUE", "1", "false") leaves the flag out. Once the files are staged a launch does
  take place.
\<close>

theorem skip_validation_flag_forwarding:
  assumes "formData req = Inr fd"
  shows
   "(\<forall>c args. Spawned c args \<in> set (events_since w (snd (POST_analyze H req w))) \<longrightarrow>
       (''--skip-validation'' \<in> set args) =
       (map_of fd ''skipValidation'' = Some (FormString ''true'')))
  \<and> (\<forall>c args. Spawned c args \<in> set (events_since w (snd (POST_generate H req w))) \<longrightarrow>
       (''--skip-validation'' \<in> set args) =
       (map_of fd ''skipValidation'' = Some (FormString ''true'')))
  \<and> (map_of fd ''word'' = Some (FormFile word) \<and> map_of fd ''excel'' = Some (FormFile excel) \<and>
      writeTempFile H word ''.docx'' w = (Inr wordTmp, w1) \<and>
      writeTempFile H excel ''.xlsx'' w1 = (Inr excelTmp, w2) \<longrightarrow>
      (\<exists>c args. Spawned c args \<in> set (events_since w (snd (POST_analyze H req w)))) \<and>
      (fileSync H ''.xlsx'' w2 = (Inr outTmp, w3) \<longrightarrow>
       (\<exists>c args. Spawned c args \<in> set (events_since w (snd (POST_generate H req w))))))"
proof (intro conjI)
  from POST_analyze_spawns [OF assms, of H w]
  show "\<forall>c args. Spawned c args \<in> set (events_since w (snd (POST_analyze H req w))) \<longrightarrow>
       (''--skip-validation'' \<in> set args) =
       (map_of fd ''skipValidation'' = Some (FormString ''true''))"
    by (auto simp: events_since_def)
next
  from POST_generate_spawns [OF assms, of H w]
  show "\<forall>c args. Spawned c args \<in> set (events_since w (snd (POST_generate H req w))) \<longrightarrow>
       (''--skip-validation'' \<in> set args) =
       (map_of fd ''skipValidation'' = Some (FormString ''true''))"
    by (auto simp: events_since_def)
next
  show "map_of fd ''word'' = Some (FormFile word) \<and> map_of fd ''excel'' = Some (FormFile excel) \<and>
      writeTempFile H word ''.docx'' w = (Inr wordTmp, w1) \<and>
      writeTempFile H excel ''.xlsx'' w1 = (Inr excelTmp, w2) \<longrightarrow>
      (\<exists>c args. Spawned c args \<in> set (events_since w (snd (POST_analyze H req w)))) \<and>
      (fileSync H ''.xlsx'' w2 = (Inr outTmp, w3) \<longrightarrow>
       (\<exists>c args. Spawned c args \<in> set (events_since w (snd (POST_generate H req w)))))"
    using POST_analyze_does_spawn [OF assms, of word excel H w wordTmp w1 excelTmp w2]
      POST_generate_does_spawn [OF assms, of word excel H w wordTmp w1 excelTmp w2 outTmp w3]
    by blast
qed

theorem skip_validation_flag_forwarding_witness:
  "Spawned ''python3''
     [''/app/processor/main.py'', ''analyze'', ''--word'', ''/tmp/tmp-a.docx'',
      ''--excel'', ''/tmp/tmp-aa.xlsx'', ''--skip-validation'']
     \<in> set (events_since empty_world
           (snd (POST_analyze (worker_host ''OK'' [] (Some 0) None) (example_request ''true'')
                   empty_world)))
 \<and> Spawned ''python3''
     [''/app/processor/main.py'', ''generate'', ''--word'', ''/tmp/tmp-a.docx'',
      ''--excel'', ''/tmp/tmp-aa.xlsx'', ''--out'', ''/tmp/tmp-aaa.xlsx'']
     \<in> set (events_since empty_world
           (snd (POST_generate (worker_host ''OK'' [] (Some 0) None) (example_request ''TRUE'')
                   empty_world)))"
proof -
  let ?H = "worker_host ''OK'' [] (Some 0) None"
  let ?word = "\<lparr>file_name = ''june.docx'', file_bytes = ''DOCX''\<rparr>"
  let ?excel = "\<lparr>file_name = ''may.xlsx'', file_bytes = ''XLSX''\<rparr>"
  let ?w1 = "snd (writeTempFile ?H ?word ''.docx'' empty_world)"
  let ?w2 = "snd (writeTempFile ?H ?excel ''.xlsx'' ?w1)"
  let ?w3 = "snd (fileSync ?H ''.xlsx'' ?w2)"
  have 1: "Spawned ''python3''
     [''/app/processor/main.py'', ''analyze'', ''--word'', ''/tmp/tmp-a.docx'',
      ''--excel'', ''/tmp/tmp-aa.xlsx'', ''--skip-validation'']
     \<in> set (events_since empty_world (snd (POST_analyze ?H (example_request ''true'') empty_world)))"
    using skip_validation_flag_forwarding
      [of "example_request ''true''" "example_form ''true''" empty_world ?H ?word ?excel
        "''/tmp/tmp-a.docx''" ?w1 "''/tmp/tmp-aa.xlsx''" ?w2 "''/tmp/tmp-aaa.xlsx''" ?w3,
        THEN conjunct1]
    by (simp add: example_defs stage_defs POST_analyze_def analyze_try_def analyze_catch_def
        removeCallback_def events_since_def)
  have 2: "Spawned ''python3''
     [''/app/processor/main.py'', ''generate'', ''--word'', ''/tmp/tmp-a.docx'',
      ''--excel'', ''/tmp/tmp-aa.xlsx'', ''--out'', ''/tmp/tmp-aaa.xlsx'']
     \<in> set (events_since empty_world (snd (POST_generate ?H (example_request ''TRUE'') empty_world)))"
    using skip_validation_flag_forwarding
      [of "example_request ''TRUE''" "example_form ''TRUE''" empty_world ?H ?word ?excel
        "''/tmp/tmp-a.docx''" ?w1 "''/tmp/tmp-aa.xlsx''" ?w2 "''/tmp/tmp-aaa.xlsx''" ?w3,
        THEN conjunct2, THEN conjunct1]
    by (simp add: example_defs stage_defs POST_generate_def generate_try_def generate_catch_def
        removeCallback_def events_since_def download_filename_def)
  from 1 2 show ?thesis by (simp only: simp_thms)
qed

section \<open>Both endpoints: temporary files\<close>

text \<open>
  Once both inputs are staged (and, for generate, the output file is created), the
  \<open>finally\<close> block removes every temporary file on each way out of the \<open>try\<close> block:
  this is \<open>staged_files_released\<close> above. The files are created before the
  \<open>try\<close> block is entered, though, so an exception during staging leaves behind what
  was created so far.

  C6 (every invocation releases all temporary files it created, on every exit path) at a
  host whose disk is full when the spreadsheet is staged: \<open>fs.writeFile\<close> throws
  inside the second \<open>writeTempFile\<close>, either handler throws that error, no
  \<open>removeCallback\<close> runs, and the staged document and the empty second file stay.
\<close>

theorem staging_failure_leaks_temp_files:
  "POST_analyze disk_full_host (example_request ''false'') empty_world =
     (Threw (JsError ''Error'' ''ENOSPC: no space left on device, write'' (Some ''ENOSPC'')),
      \<lparr>files = [(''/tmp/tmp-a.docx'', ''DOCX''), (''/tmp/tmp-aa.xlsx'', [])],
       tmp_calls = 2,
       trace = [Created ''/tmp/tmp-a.docx'', Wrote ''/tmp/tmp-a.docx'',
                Created ''/tmp/tmp-aa.xlsx'']\<rparr>)
 \<and> POST_generate disk_full_host (example_request ''false'') empty_world =
     (Threw (JsError ''Error'' ''ENOSPC: no space left on device, write'' (Some ''ENOSPC'')),
      \<lparr>files = [(''/tmp/tmp-a.docx'', ''DOCX''), (''/tmp/tmp-aa.xlsx'', [])],
       tmp_calls = 2,
       trace = [Created ''/tmp/tmp-a.docx'', Wrote ''/tmp/tmp-a.docx'',
                Created ''/tmp/tmp-aa.xlsx'']\<rparr>)"
  by (simp add: disk_full_host_def example_defs POST_analyze_def POST_generate_def
      writeTempFile_def fileSync_def fs_writeFile_def Let_def)


section \<open>Both endpoints: the exit code\<close>

text \<open>
  C8, as the code has it. The handlers never look at the worker's exit code. Of the
  outcome of a spawn they use the error when it fails and, when it resolves, the standard
  output, the standard error only when the output is blank (it becomes the details of the
  500 response), and the files the run leaves: two hosts whose spawns agree on these get
  the same result from either handler, whatever the exit codes. In particular a run that
  exits with a nonzero code and prints a JSON payload with status "ok" is a full success:
  analyze returns the payload with status 200, and generate returns the output file with
  status 200 when the file name built from the payload is a valid header value.
\<close>

theorem responses_ignore_exit_code:
  "((\<forall>c a d fs. observed (sp c a d fs) = observed (child_spawn H c a d fs)) \<longrightarrow>
      POST_analyze (H\<lparr>child_spawn := sp\<rparr>) req w = POST_analyze H req w \<and>
      POST_generate (H\<lparr>child_spawn := sp\<rparr>) req w = POST_generate H req w)
 \<and> (formData req = Inr fd \<and>
      map_of fd ''word'' = Some (FormFile word) \<and> map_of fd ''excel'' = Some (FormFile excel) \<and>
      writeTempFile H word ''.docx'' w = (Inr wordTmp, w1) \<and>
      writeTempFile H excel ''.xlsx'' w1 = (Inr excelTmp, w2) \<and>
      runPython H
        (analyze_args H (map_of fd ''skipValidation'' = Some (FormString ''true''))
           wordTmp excelTmp)
        (Some (process_cwd H)) w2 = (Inr result, w3) \<and>
      exitCode result = Some n \<and> n \<noteq> 0 \<and>
      js_trim (stdout result) \<noteq> [] \<and>
      JSON_parse H (stdout result) = Inr (JObject kvs) \<and>
      map_of kvs ''status'' = Some (JString ''ok'') \<longrightarrow>
      fst (POST_analyze H req w) =
        Returned \<lparr>resp_status = 200,
                  resp_headers = [(''content-type'', ''application/json'')],
                  resp_body = JsonBody (JObject kvs)\<rparr>)
 \<and> (formData req = Inr fd \<and>
      map_of fd ''word'' = Some (FormFile word) \<and> map_of fd ''excel'' = Some (FormFile excel) \<and>
      writeTempFile H word ''.docx'' w = (Inr wordTmp, w1) \<and>
      writeTempFile H excel ''.xlsx'' w1 = (Inr excelTmp, w2) \<and>
      fileSync H ''.xlsx'' w2 = (Inr outTmp, v3) \<and>
      runPython H
        (generate_args H (map_of fd ''skipValidation'' = Some (FormString ''true''))
           wordTmp excelTmp outTmp)
        (Some (process_cwd H)) v3 = (Inr result, v4) \<and>
      exitCode result = Some n \<and> n \<noteq> 0 \<and>
      js_trim (stdout result) \<noteq> [] \<and>
      JSON_parse H (stdout result) = Inr (JObject kvs) \<and>
      map_of kvs ''status'' = Some (JString ''ok'') \<and>
      map_of (files v4) outTmp = Some content \<and>
      download_filename (JObject kvs) = Inr filename \<and> header_text_ok filename \<longrightarrow>
      fst (POST_generate H req w) =
        Returned
          \<lparr>resp_status = 200,
           resp_headers =
             [(''Content-Type'',
               ''application/vnd.openxmlformats-officedocument.spreadsheetml.sheet''),
              (''Content-Disposition'', ''attachment; filename=\"'' @ filename @ ''\"'')],
           resp_body = BinaryBody content\<rparr>)"
proof (intro conjI impI; (elim conjE)?)
  assume "\<forall>c a d fs. observed (sp c a d fs) = observed (child_spawn H c a d fs)"
  then show "POST_analyze (H\<lparr>child_spawn := sp\<rparr>) req w = POST_analyze H req w"
    and "POST_generate (H\<lparr>child_spawn := sp\<rparr>) req w = POST_generate H req w"
    by (rule POST_observed)+
next
  let ?skip = "map_of fd ''skipValidation'' = Some (FormString ''true'')"
  assume staged: "formData req = Inr fd" "map_of fd ''word'' = Some (FormFile word)"
    "map_of fd ''excel'' = Some (FormFile excel)"
    "writeTempFile H word ''.docx'' w = (Inr wordTmp, w1)"
    "writeTempFile H excel ''.xlsx'' w1 = (Inr excelTmp, w2)"
  assume run: "runPython H (analyze_args H ?skip wordTmp excelTmp) (Some (process_cwd H)) w2 =
      (Inr result, w3)"
    "js_trim (stdout result) \<noteq> []" "JSON_parse H (stdout result) = Inr (JObject kvs)"
    "map_of kvs ''status'' = Some (JString ''ok'')"
  from run have "analyze_try H ?skip wordTmp excelTmp w2 =
      (Inr (NextResponse_json (JObject kvs) 200), w3)"
    by (simp add: analyze_try_def)
  from POST_analyze_staged [OF staged this]
  show "fst (POST_analyze H req w) =
        Returned \<lparr>resp_status = 200,
                  resp_headers = [(''content-type'', ''application/json'')],
                  resp_body = JsonBody (JObject kvs)\<rparr>"
    by (simp add: analyze_catch_def NextResponse_json_def)
next
  let ?skip = "map_of fd ''skipValidation'' = Some (FormString ''true'')"
  assume staged: "formData req = Inr fd" "map_of fd ''word'' = Some (FormFile word)"
    "map_of fd ''excel'' = Some (FormFile excel)"
    "writeTempFile H word ''.docx'' w = (Inr wordTmp, w1)"
    "writeTempFile H excel ''.xlsx'' w1 = (Inr excelTmp, w2)"
    "fileSync H ''.xlsx'' w2 = (Inr outTmp, v3)"
  assume run: "runPython H (generate_args H ?skip wordTmp excelTmp outTmp)
      (Some (process_cwd H)) v3 = (Inr result, v4)"
    "js_trim (stdout result) \<noteq> []" "JSON_parse H (stdout result) = Inr (JObject kvs)"
    "map_of kvs ''status'' = Some (JString ''ok'')" "map_of (files v4) outTmp = Some content"
    "download_filename (JObject kvs) = Inr filename"
  assume valid: "header_text_ok filename"
  note tried = generate_try_ok [OF run]
  from POST_generate_staged [OF staged tried] download_response_ok [OF valid, of H content]
  show "fst (POST_generate H req w) =
        Returned
          \<lparr>resp_status = 200,
           resp_headers =
             [(''Content-Type'',
               ''application/vnd.openxmlformats-officedocument.spreadsheetml.sheet''),
              (''Content-Disposition'', ''attachment; filename=\"'' @ filename @ ''\"'')],
           resp_body = BinaryBody content\<rparr>"
    by (simp add: generate_catch_def)
qed

theorem responses_ignore_exit_code_witness:
  "POST_generate (worker_host ''OK'' ''warning'' (Some 3) (Some ''NEWXLSX''))
     (example_request ''false'') empty_world =
   POST_generate (worker_host ''OK'' [] (Some 0) (Some ''NEWXLSX''))
     (example_request ''false'') empty_world
 \<and> fst (POST_analyze (worker_host ''OK'' ''warning'' (Some 3) None)
          (example_request ''false'') empty_world) =
     Returned \<lparr>resp_status = 200,
               resp_headers = [(''content-type'', ''application/json'')],
               resp_body = JsonBody ok_payload\<rparr>
 \<and> fst (POST_generate (worker_host ''OK'' ''warning'' (Some 3) (Some ''NEWXLSX''))
          (example_request ''false'') empty_world) =
     Returned
       \<lparr>resp_status = 200,
        resp_headers =
          [(''Content-Type'',
            ''application/vnd.openxmlformats-officedocument.spreadsheetml.sheet''),
           (''Content-Disposition'', ''attachment; filename=\"report_updated_2024-01.xlsx\"'')],
        resp_body = BinaryBody ''NEWXLSX''\<rparr>"
proof -
  let ?H0 = "worker_host ''OK'' [] (Some 0) (Some ''NEWXLSX'')"
  let ?H3 = "worker_host ''OK'' ''warning'' (Some 3) (Some ''NEWXLSX'')"
  let ?A3 = "worker_host ''OK'' ''warning'' (Some 3) None"
  let ?req = "example_request ''false''" and ?fd = "example_form ''false''"
  let ?word = "\<lparr>file_name = ''june.docx'', file_bytes = ''DOCX''\<rparr>"
  let ?excel = "\<lparr>file_name = ''may.xlsx'', file_bytes = ''XLSX''\<rparr>"
  let ?a = "''/tmp/tmp-a.docx''" and ?b = "''/tmp/tmp-aa.xlsx''" and ?out = "''/tmp/tmp-aaa.xlsx''"
  let ?w1 = "snd (writeTempFile base_host ?word ''.docx'' empty_world)"
  let ?w2 = "snd (writeTempFile base_host ?excel ''.xlsx'' ?w1)"
  let ?v3 = "snd (fileSync base_host ''.xlsx'' ?w2)"
  let ?res = "\<lparr>stdout = ''OK'', stderr = ''warning'', exitCode = Some 3\<rparr>"
  let ?kvs = "[(''status'', JString ''ok''),
               (''report'', JObject [(''reportMonth'', JString ''2024-01'')])]"
  have same: "?H0\<lparr>child_spawn := child_spawn ?H3\<rparr> = ?H3"
    by (simp add: worker_host_def base_host_def)
  have obs: "\<forall>c a d fs. observed (child_spawn ?H3 c a d fs) = observed (child_spawn ?H0 c a d fs)"
    by (simp add: worker_host_def base_host_def observed_def seen_of_def trim_examples)
  have 1: "POST_generate ?H3 ?req empty_world = POST_generate ?H0 ?req empty_world"
    using responses_ignore_exit_code
      [where sp = "child_spawn ?H3" and H = ?H0 and req = ?req and w = empty_world,
        THEN conjunct1, THEN mp, OF obs]
    by (simp only: same)
  have 2: "fst (POST_analyze ?A3 ?req empty_world) =
     Returned \<lparr>resp_status = 200,
               resp_headers = [(''content-type'', ''application/json'')],
               resp_body = JsonBody ok_payload\<rparr>"
    using responses_ignore_exit_code
      [where H = ?A3 and req = ?req and fd = ?fd and w = empty_world and word = ?word
        and excel = ?excel and wordTmp = ?a and ?w1.0 = ?w1 and excelTmp = ?b and ?w2.0 = ?w2
        and result = ?res
        and ?w3.0 = "snd (runPython ?A3 (analyze_args ?A3 False ?a ?b) (Some ''/app'') ?w2)"
        and n = 3 and kvs = ?kvs,
        THEN conjunct2, THEN conjunct1]
    by (simp add: example_defs stage_defs)
  have 3: "fst (POST_generate ?H3 ?req empty_world) =
     Returned
       \<lparr>resp_status = 200,
        resp_headers =
          [(''Content-Type'',
            ''application/vnd.openxmlformats-officedocument.spreadsheetml.sheet''),
           (''Content-Disposition'', ''attachment; filename=\"report_updated_2024-01.xlsx\"'')],
        resp_body = BinaryBody ''NEWXLSX''\<rparr>"
    using responses_ignore_exit_code
      [where H = ?H3 and req = ?req and fd = ?fd and w = empty_world and word = ?word
        and excel = ?excel and wordTmp = ?a and ?w1.0 = ?w1 and excelTmp = ?b and ?w2.0 = ?w2
        and outTmp = ?out and ?v3.0 = ?v3 and result = ?res
        and ?v4.0 = "snd (runPython ?H3 (generate_args ?H3 False ?a ?b ?out) (Some ''/app'') ?v3)"
        and n = 3 and kvs = ?kvs and content = "''NEWXLSX''"
        and filename = "''report_updated_2024-01.xlsx''",
        THEN conjunct2, THEN conjunct2]
    by (simp add: example_defs stage_defs download_filename_def header_text_ok_def
        byte_string_char_def header_value_char_def)
  from 1 2 3 show ?thesis by (simp only: simp_thms)
qed

text \<open>
  C8 as the spec words it fails twice. The responses do not depend on the standard output
  (and spawn errors) alone: two runs that print the same blank output and exit with the
  same code, but differ in what they wrote to standard error, get different responses,
  since the blank-output response carries the standard error as details. And a run that
  exits with a nonzero code and prints a payload with status "ok" is not always answered
  with the artifact: when the payload's reportMonth holds a line feed, the request is
  answered 500.
\<close>

theorem response_carries_stderr:
  "fst (POST_analyze (worker_host ''   '' ''ImportError'' (Some 1) None)
          (example_request ''false'') empty_world) =
     Returned
       \<lparr>resp_status = 500,
        resp_headers = [(''content-type'', ''application/json'')],
        resp_body = JsonBody (JObject
          [(''error'', JString ''Python worker did not return output.''),
           (''details'', JString ''ImportError'')])\<rparr>
 \<and> fst (POST_analyze (worker_host ''   '' ''MemoryError'' (Some 1) None)
          (example_request ''false'') empty_world) =
     Returned
       \<lparr>resp_status = 500,
        resp_headers = [(''content-type'', ''application/json'')],
        resp_body = JsonBody (JObject
          [(''error'', JString ''Python worker did not return output.''),
           (''details'', JString ''MemoryError'')])\<rparr>
 \<and> fst (POST_analyze (worker_host ''   '' ''ImportError'' (Some 1) None)
          (example_request ''false'') empty_world) \<noteq>
   fst (POST_analyze (worker_host ''   '' ''MemoryError'' (Some 1) None)
          (example_request ''false'') empty_world)
 \<and> get_prop linefeed_payload ''status'' = Inr (Some (JString ''ok''))
 \<and> fst (POST_generate (worker_host ''LINEFEED'' [] (Some 3) (Some ''NEWXLSX''))
          (example_request ''false'') empty_world) =
     Returned
       \<lparr>resp_status = 500,
        resp_headers = [(''content-type'', ''application/json'')],
        resp_body = JsonBody (JObject
          [(''error'', JString ''Failed to generate report.''),
           (''details'', JString ''TypeError: Invalid header value'')])\<rparr>"
  by (simp add: example_defs stage_defs POST_analyze_def analyze_try_def analyze_catch_def
      NextResponse_json_def POST_generate_def generate_try_def generate_catch_def
      download_filename_def download_response_def NextResponse_new_def header_value_ok_def
      header_normalize_def http_space_def byte_string_char_def header_value_char_def
      xlsx_type_def)

section \<open>The validation gate and its override\<close>




end
